theory Spec2Isabelle
  imports Complex_Main
begin

section \<open>Numbers and errors\<close>

text \<open>
  Python's \<^verbatim>\<open>float\<close> values are idealised as \<^typ>\<open>real\<close>: every number is finite and
  arithmetic is exact. The order comparisons that drive the branches of the program are
  the comparisons of \<^typ>\<open>real\<close>; NaN, the infinities and binary rounding are outside this
  model. The tolerance \<^verbatim>\<open>1e-6\<close> is the real number \<open>1 / 1000000\<close>. A second
  embedding of \<^verbatim>\<open>evaluate_market\<close>, further below, adds NaN and the infinities and
  agrees with this one on finite inputs.
\<close>

datatype py_error = ZeroDivisionError

text \<open>Python's \<^verbatim>\<open>a / b\<close> on floats raises on a zero divisor.\<close>

definition py_truediv :: "real \<Rightarrow> real \<Rightarrow> py_error + real" where
  "py_truediv a b = (if b = 0 then Inl ZeroDivisionError else Inr (a / b))"

text \<open>
  \<^verbatim>\<open>round(x, n)\<close> rounds to \<open>n\<close> decimal places, a value half-way between two
  neighbours going to the even one.
\<close>

definition round_half_even :: "real \<Rightarrow> int" where
  "round_half_even y =
     (let f = \<lfloor>y\<rfloor>; d = y - of_int f
      in if d < 1 / 2 then f
         else if d > 1 / 2 then f + 1
         else if even f then f else f + 1)"

definition py_round :: "real \<Rightarrow> nat \<Rightarrow> real" where
  "py_round x n = of_int (round_half_even (x * 10 ^ n)) / 10 ^ n"

section \<open>payout\_calc.py\<close>

record Config =
  majority_accuracy :: real
  min_ev :: real
  fee_rate :: real

text \<open>\<^verbatim>\<open>Config()\<close> with the defaults of the dataclass.\<close>

definition Config_default :: Config where
  "Config_default = \<lparr>majority_accuracy = 9 / 10, min_ev = 0, fee_rate = 0\<rparr>"

text \<open>\<^verbatim>\<open>_as_prob\<close>: the divisor is the constant 100.0, so the division cannot raise.\<close>

definition as_prob :: "real \<Rightarrow> real" where
  "as_prob x = (if x > 1 then x / 100 else x)"

datatype side = YES | NO | HOLD

text \<open>
  The local variables of \<^verbatim>\<open>evaluate_market\<close> when it reaches its \<^verbatim>\<open>return\<close>
  statement, before any rounding. \<^verbatim>\<open>shares\<close>, \<^verbatim>\<open>gross_win_payout\<close> and \<^verbatim>\<open>fee\<close>
  are not bound on the HOLD branch: \<open>None\<close> there.
\<close>

record locals =
  v_p_yes :: real
  v_p_no :: real
  v_q_yes :: real
  v_ev_per_yes :: real
  v_ev_per_no :: real
  v_side :: side
  v_chosen_price :: "real option"
  v_chosen_q_win :: "real option"
  v_shares :: "real option"
  v_gross_win_payout :: "real option"
  v_fee :: "real option"
  v_ev_dollars :: real
  v_win_payout :: real
  v_lose_payout :: real

text \<open>
  The body of \<^verbatim>\<open>evaluate_market\<close> up to the \<^verbatim>\<open>return\<close>: normalisation, calibration,
  the per-dollar EVs, and the three branches of the side selection. The only operation
  that can raise is the division \<^verbatim>\<open>stake / c\<close>.
\<close>

definition evaluate_market_locals ::
    "real \<Rightarrow> real option \<Rightarrow> real \<Rightarrow> Config \<Rightarrow> py_error + locals" where
  "evaluate_market_locals yes_pct no_pct stake cfg =
     (let p_yes = as_prob yes_pct;
          p_no0 = (case no_pct of None \<Rightarrow> 1 - p_yes | Some n \<Rightarrow> as_prob n);
          p_no = (if \<bar>(p_yes + p_no0) - 1\<bar> > 1 / 1000000 then 1 - p_yes else p_no0);
          q_yes = (if p_yes > p_no then majority_accuracy cfg
                   else if p_yes < p_no then 1 - majority_accuracy cfg
                   else 1 / 2);
          ev_per_yes = q_yes - p_yes;
          ev_per_no = (1 - q_yes) - p_no
      in if ev_per_yes < min_ev cfg \<and> ev_per_no < min_ev cfg then
           Inr \<lparr>v_p_yes = p_yes, v_p_no = p_no, v_q_yes = q_yes,
                v_ev_per_yes = ev_per_yes, v_ev_per_no = ev_per_no,
                v_side = HOLD, v_chosen_price = None, v_chosen_q_win = None,
                v_shares = None, v_gross_win_payout = None, v_fee = None,
                v_ev_dollars = 0, v_win_payout = 0, v_lose_payout = 0\<rparr>
         else if ev_per_yes \<ge> ev_per_no then
           (let c = p_yes;
                chosen_q_win = q_yes
            in case (if c > 0 then py_truediv stake c else Inr 0) of
                 Inl e \<Rightarrow> Inl e
               | Inr shares \<Rightarrow>
                   (let gross_win_payout = shares * 1;
                        fee = fee_rate cfg * (gross_win_payout - stake);
                        win_payout = gross_win_payout - fee;
                        lose_payout = 0;
                        ev_dollars = (chosen_q_win * win_payout)
                                     + ((1 - chosen_q_win) * lose_payout) - stake
                    in Inr \<lparr>v_p_yes = p_yes, v_p_no = p_no, v_q_yes = q_yes,
                            v_ev_per_yes = ev_per_yes, v_ev_per_no = ev_per_no,
                            v_side = YES, v_chosen_price = Some c,
                            v_chosen_q_win = Some chosen_q_win,
                            v_shares = Some shares,
                            v_gross_win_payout = Some gross_win_payout, v_fee = Some fee,
                            v_ev_dollars = ev_dollars, v_win_payout = win_payout,
                            v_lose_payout = lose_payout\<rparr>))
         else
           (let c = p_no;
                chosen_q_win = 1 - q_yes
            in case (if c > 0 then py_truediv stake c else Inr 0) of
                 Inl e \<Rightarrow> Inl e
               | Inr shares \<Rightarrow>
                   (let gross_win_payout = shares * 1;
                        fee = fee_rate cfg * (gross_win_payout - stake);
                        win_payout = gross_win_payout - fee;
                        lose_payout = 0;
                        ev_dollars = (chosen_q_win * win_payout)
                                     + ((1 - chosen_q_win) * lose_payout) - stake
                    in Inr \<lparr>v_p_yes = p_yes, v_p_no = p_no, v_q_yes = q_yes,
                            v_ev_per_yes = ev_per_yes, v_ev_per_no = ev_per_no,
                            v_side = NO, v_chosen_price = Some c,
                            v_chosen_q_win = Some chosen_q_win,
                            v_shares = Some shares,
                            v_gross_win_payout = Some gross_win_payout, v_fee = Some fee,
                            v_ev_dollars = ev_dollars, v_win_payout = win_payout,
                            v_lose_payout = lose_payout\<rparr>)))"

text \<open>
  The dictionary that \<^verbatim>\<open>evaluate_market\<close> returns, one field per key
  (\<open>res_ev_per_dollar\<close> is the key \<^verbatim>\<open>ev_per_$\<close>).
\<close>

record result =
  res_question :: string
  res_p_yes_market :: real
  res_p_no_market :: real
  res_q_yes_calibrated :: real
  res_side :: side
  res_stake :: real
  res_chosen_price :: "real option"
  res_win_prob_of_chosen :: "real option"
  res_ev_per_dollar :: real
  res_ev_dollars :: real
  res_win_payout_if_correct :: real
  res_lose_payout_if_wrong :: real

definition evaluate_market ::
    "string \<Rightarrow> real \<Rightarrow> real option \<Rightarrow> real \<Rightarrow> Config \<Rightarrow> py_error + result" where
  "evaluate_market question yes_pct no_pct stake cfg =
     (case evaluate_market_locals yes_pct no_pct stake cfg of
        Inl e \<Rightarrow> Inl e
      | Inr l \<Rightarrow>
          Inr \<lparr>res_question = question,
               res_p_yes_market = py_round (v_p_yes l) 4,
               res_p_no_market = py_round (v_p_no l) 4,
               res_q_yes_calibrated = py_round (v_q_yes l) 4,
               res_side = v_side l,
               res_stake = py_round stake 2,
               res_chosen_price = map_option (\<lambda>c. py_round c 4) (v_chosen_price l),
               res_win_prob_of_chosen = map_option (\<lambda>q. py_round q 4) (v_chosen_q_win l),
               res_ev_per_dollar =
                 (if v_side l \<noteq> HOLD then py_round (max (v_ev_per_yes l) (v_ev_per_no l)) 4
                  else 0),
               res_ev_dollars = py_round (v_ev_dollars l) 2,
               res_win_payout_if_correct = py_round (v_win_payout l) 2,
               res_lose_payout_if_wrong = py_round (v_lose_payout l) 2\<rparr>)"

section \<open>payout\_calc.py with the special float values\<close>

text \<open>
  A second embedding of \<^verbatim>\<open>evaluate_market\<close>, over floats that include NaN and the two
  infinities, which \<^verbatim>\<open>float(s)\<close> in \<^verbatim>\<open>_parse_float\<close> accepts and the function
  does not reject. A finite value is still a real number and finite arithmetic is still
  exact (no rounding to 53 bits, no overflow, no signed zero); what is added is the IEEE
  behaviour of the special values: every comparison with NaN is false, NaN propagates
  through arithmetic, and \<open>inf - inf\<close>, \<open>0 * inf\<close> and \<open>inf / inf\<close> are NaN.
\<close>

datatype pyfloat = Fin real | PInf | NInf | NaN

text \<open>The comparisons \<^verbatim>\<open>a < b\<close>, \<^verbatim>\<open>a <= b\<close> and \<^verbatim>\<open>a == b\<close>.\<close>

fun fl_lt :: "pyfloat \<Rightarrow> pyfloat \<Rightarrow> bool" where
  "fl_lt (Fin a) (Fin b) = (a < b)"
| "fl_lt (Fin a) PInf = True"
| "fl_lt NInf (Fin b) = True"
| "fl_lt NInf PInf = True"
| "fl_lt _ _ = False"

fun fl_le :: "pyfloat \<Rightarrow> pyfloat \<Rightarrow> bool" where
  "fl_le (Fin a) (Fin b) = (a \<le> b)"
| "fl_le (Fin a) PInf = True"
| "fl_le NInf (Fin b) = True"
| "fl_le NInf PInf = True"
| "fl_le NInf NInf = True"
| "fl_le PInf PInf = True"
| "fl_le _ _ = False"

definition fl_eq :: "pyfloat \<Rightarrow> pyfloat \<Rightarrow> bool" where
  "fl_eq a b = (a \<noteq> NaN \<and> a = b)"

text \<open>Negation, absolute value, sum, difference and product.\<close>

fun fl_neg :: "pyfloat \<Rightarrow> pyfloat" where
  "fl_neg (Fin a) = Fin (- a)"
| "fl_neg PInf = NInf"
| "fl_neg NInf = PInf"
| "fl_neg NaN = NaN"

fun fl_abs :: "pyfloat \<Rightarrow> pyfloat" where
  "fl_abs (Fin a) = Fin \<bar>a\<bar>"
| "fl_abs PInf = PInf"
| "fl_abs NInf = PInf"
| "fl_abs NaN = NaN"

fun fl_add :: "pyfloat \<Rightarrow> pyfloat \<Rightarrow> pyfloat" where
  "fl_add (Fin a) (Fin b) = Fin (a + b)"
| "fl_add NaN _ = NaN"
| "fl_add _ NaN = NaN"
| "fl_add PInf NInf = NaN"
| "fl_add NInf PInf = NaN"
| "fl_add PInf _ = PInf"
| "fl_add _ PInf = PInf"
| "fl_add NInf _ = NInf"
| "fl_add _ NInf = NInf"

definition fl_sub :: "pyfloat \<Rightarrow> pyfloat \<Rightarrow> pyfloat" where
  "fl_sub a b = fl_add a (fl_neg b)"

text \<open>The infinity with the sign of a nonzero real, NaN for zero.\<close>

definition signed_inf :: "real \<Rightarrow> pyfloat" where
  "signed_inf a = (if a > 0 then PInf else if a < 0 then NInf else NaN)"

fun fl_mul :: "pyfloat \<Rightarrow> pyfloat \<Rightarrow> pyfloat" where
  "fl_mul (Fin a) (Fin b) = Fin (a * b)"
| "fl_mul NaN _ = NaN"
| "fl_mul _ NaN = NaN"
| "fl_mul PInf (Fin b) = signed_inf b"
| "fl_mul NInf (Fin b) = signed_inf (- b)"
| "fl_mul (Fin a) PInf = signed_inf a"
| "fl_mul (Fin a) NInf = signed_inf (- a)"
| "fl_mul PInf PInf = PInf"
| "fl_mul NInf NInf = PInf"
| "fl_mul PInf NInf = NInf"
| "fl_mul NInf PInf = NInf"

text \<open>
  The IEEE quotient, used where the divisor is not zero. Python's \<^verbatim>\<open>a / b\<close> tests the
  divisor first and raises on zero, whatever the dividend.
\<close>

fun fl_quot :: "pyfloat \<Rightarrow> pyfloat \<Rightarrow> pyfloat" where
  "fl_quot (Fin a) (Fin b) = (if b = 0 then signed_inf a else Fin (a / b))"
| "fl_quot NaN _ = NaN"
| "fl_quot _ NaN = NaN"
| "fl_quot (Fin a) PInf = Fin 0"
| "fl_quot (Fin a) NInf = Fin 0"
| "fl_quot PInf (Fin b) = (if b \<ge> 0 then PInf else NInf)"
| "fl_quot NInf (Fin b) = (if b \<ge> 0 then NInf else PInf)"
| "fl_quot PInf PInf = NaN"
| "fl_quot PInf NInf = NaN"
| "fl_quot NInf PInf = NaN"
| "fl_quot NInf NInf = NaN"

definition fl_truediv :: "pyfloat \<Rightarrow> pyfloat \<Rightarrow> py_error + pyfloat" where
  "fl_truediv a b = (if b = Fin 0 then Inl ZeroDivisionError else Inr (fl_quot a b))"

text \<open>
  \<^verbatim>\<open>round(x, n)\<close> returns NaN and the infinities unchanged. \<^verbatim>\<open>max(a, b)\<close> keeps its
  first argument unless the second is greater.
\<close>

definition fl_round :: "pyfloat \<Rightarrow> nat \<Rightarrow> pyfloat" where
  "fl_round x n = (case x of Fin a \<Rightarrow> Fin (py_round a n) | _ \<Rightarrow> x)"

definition fl_max :: "pyfloat \<Rightarrow> pyfloat \<Rightarrow> pyfloat" where
  "fl_max a b = (if fl_lt a b then b else a)"

record Config_fl =
  fl_majority_accuracy :: pyfloat
  fl_min_ev :: pyfloat
  fl_fee_rate :: pyfloat

text \<open>\<^verbatim>\<open>_as_prob\<close>; the divisor is the constant 100.0.\<close>

definition as_prob_fl :: "pyfloat \<Rightarrow> pyfloat" where
  "as_prob_fl x = (if fl_lt (Fin 1) x then fl_quot x (Fin 100) else x)"

text \<open>The local variables of \<^verbatim>\<open>evaluate_market\<close> at its \<^verbatim>\<open>return\<close>, as floats.\<close>

record locals_fl =
  x_p_yes :: pyfloat
  x_p_no :: pyfloat
  x_q_yes :: pyfloat
  x_ev_per_yes :: pyfloat
  x_ev_per_no :: pyfloat
  x_side :: side
  x_chosen_price :: "pyfloat option"
  x_chosen_q_win :: "pyfloat option"
  x_shares :: "pyfloat option"
  x_gross_win_payout :: "pyfloat option"
  x_fee :: "pyfloat option"
  x_ev_dollars :: pyfloat
  x_win_payout :: pyfloat
  x_lose_payout :: pyfloat

definition evaluate_market_locals_fl ::
    "pyfloat \<Rightarrow> pyfloat option \<Rightarrow> pyfloat \<Rightarrow> Config_fl \<Rightarrow> py_error + locals_fl" where
  "evaluate_market_locals_fl yes_pct no_pct stake cfg =
     (let p_yes = as_prob_fl yes_pct;
          p_no0 = (case no_pct of None \<Rightarrow> fl_sub (Fin 1) p_yes | Some n \<Rightarrow> as_prob_fl n);
          p_no = (if fl_lt (Fin (1 / 1000000)) (fl_abs (fl_sub (fl_add p_yes p_no0) (Fin 1)))
                  then fl_sub (Fin 1) p_yes else p_no0);
          q_yes = (if fl_lt p_no p_yes then fl_majority_accuracy cfg
                   else if fl_lt p_yes p_no then fl_sub (Fin 1) (fl_majority_accuracy cfg)
                   else Fin (1 / 2));
          ev_per_yes = fl_sub q_yes p_yes;
          ev_per_no = fl_sub (fl_sub (Fin 1) q_yes) p_no
      in if fl_lt ev_per_yes (fl_min_ev cfg) \<and> fl_lt ev_per_no (fl_min_ev cfg) then
           Inr \<lparr>x_p_yes = p_yes, x_p_no = p_no, x_q_yes = q_yes,
                x_ev_per_yes = ev_per_yes, x_ev_per_no = ev_per_no,
                x_side = HOLD, x_chosen_price = None, x_chosen_q_win = None,
                x_shares = None, x_gross_win_payout = None, x_fee = None,
                x_ev_dollars = Fin 0, x_win_payout = Fin 0, x_lose_payout = Fin 0\<rparr>
         else if fl_le ev_per_no ev_per_yes then
           (let c = p_yes;
                chosen_q_win = q_yes
            in case (if fl_lt (Fin 0) c then fl_truediv stake c else Inr (Fin 0)) of
                 Inl e \<Rightarrow> Inl e
               | Inr shares \<Rightarrow>
                   (let gross_win_payout = fl_mul shares (Fin 1);
                        fee = fl_mul (fl_fee_rate cfg) (fl_sub gross_win_payout stake);
                        win_payout = fl_sub gross_win_payout fee;
                        lose_payout = Fin 0;
                        ev_dollars = fl_sub (fl_add (fl_mul chosen_q_win win_payout)
                                               (fl_mul (fl_sub (Fin 1) chosen_q_win) lose_payout))
                                            stake
                    in Inr \<lparr>x_p_yes = p_yes, x_p_no = p_no, x_q_yes = q_yes,
                            x_ev_per_yes = ev_per_yes, x_ev_per_no = ev_per_no,
                            x_side = YES, x_chosen_price = Some c,
                            x_chosen_q_win = Some chosen_q_win,
                            x_shares = Some shares,
                            x_gross_win_payout = Some gross_win_payout, x_fee = Some fee,
                            x_ev_dollars = ev_dollars, x_win_payout = win_payout,
                            x_lose_payout = lose_payout\<rparr>))
         else
           (let c = p_no;
                chosen_q_win = fl_sub (Fin 1) q_yes
            in case (if fl_lt (Fin 0) c then fl_truediv stake c else Inr (Fin 0)) of
                 Inl e \<Rightarrow> Inl e
               | Inr shares \<Rightarrow>
                   (let gross_win_payout = fl_mul shares (Fin 1);
                        fee = fl_mul (fl_fee_rate cfg) (fl_sub gross_win_payout stake);
                        win_payout = fl_sub gross_win_payout fee;
                        lose_payout = Fin 0;
                        ev_dollars = fl_sub (fl_add (fl_mul chosen_q_win win_payout)
                                               (fl_mul (fl_sub (Fin 1) chosen_q_win) lose_payout))
                                            stake
                    in Inr \<lparr>x_p_yes = p_yes, x_p_no = p_no, x_q_yes = q_yes,
                            x_ev_per_yes = ev_per_yes, x_ev_per_no = ev_per_no,
                            x_side = NO, x_chosen_price = Some c,
                            x_chosen_q_win = Some chosen_q_win,
                            x_shares = Some shares,
                            x_gross_win_payout = Some gross_win_payout, x_fee = Some fee,
                            x_ev_dollars = ev_dollars, x_win_payout = win_payout,
                            x_lose_payout = lose_payout\<rparr>)))"

text \<open>The returned dictionary, as floats (\<open>xres_ev_per_dollar\<close> is the key \<^verbatim>\<open>ev_per_$\<close>).\<close>

record result_fl =
  xres_question :: string
  xres_p_yes_market :: pyfloat
  xres_p_no_market :: pyfloat
  xres_q_yes_calibrated :: pyfloat
  xres_side :: side
  xres_stake :: pyfloat
  xres_chosen_price :: "pyfloat option"
  xres_win_prob_of_chosen :: "pyfloat option"
  xres_ev_per_dollar :: pyfloat
  xres_ev_dollars :: pyfloat
  xres_win_payout_if_correct :: pyfloat
  xres_lose_payout_if_wrong :: pyfloat

definition evaluate_market_fl ::
    "string \<Rightarrow> pyfloat \<Rightarrow> pyfloat option \<Rightarrow> pyfloat \<Rightarrow> Config_fl \<Rightarrow> py_error + result_fl" where
  "evaluate_market_fl question yes_pct no_pct stake cfg =
     (case evaluate_market_locals_fl yes_pct no_pct stake cfg of
        Inl e \<Rightarrow> Inl e
      | Inr l \<Rightarrow>
          Inr \<lparr>xres_question = question,
               xres_p_yes_market = fl_round (x_p_yes l) 4,
               xres_p_no_market = fl_round (x_p_no l) 4,
               xres_q_yes_calibrated = fl_round (x_q_yes l) 4,
               xres_side = x_side l,
               xres_stake = fl_round stake 2,
               xres_chosen_price = map_option (\<lambda>c. fl_round c 4) (x_chosen_price l),
               xres_win_prob_of_chosen = map_option (\<lambda>q. fl_round q 4) (x_chosen_q_win l),
               xres_ev_per_dollar =
                 (if x_side l \<noteq> HOLD then fl_round (fl_max (x_ev_per_yes l) (x_ev_per_no l)) 4
                  else Fin 0),
               xres_ev_dollars = fl_round (x_ev_dollars l) 2,
               xres_win_payout_if_correct = fl_round (x_win_payout l) 2,
               xres_lose_payout_if_wrong = fl_round (x_lose_payout l) 2\<rparr>)"

text \<open>A finite float, as \<^verbatim>\<open>math.isfinite\<close> tests it.\<close>

definition is_fin :: "pyfloat \<Rightarrow> bool" where
  "is_fin x = (case x of Fin a \<Rightarrow> True | _ \<Rightarrow> False)"

text \<open>
  The embedding of the real-number model into the float model: a configuration and a
  record of local variables whose numbers are all finite.
\<close>

definition Config_to_fl :: "Config \<Rightarrow> Config_fl" where
  "Config_to_fl cfg =
     \<lparr>fl_majority_accuracy = Fin (majority_accuracy cfg), fl_min_ev = Fin (min_ev cfg),
      fl_fee_rate = Fin (fee_rate cfg)\<rparr>"

definition locals_to_fl :: "locals \<Rightarrow> locals_fl" where
  "locals_to_fl l =
     \<lparr>x_p_yes = Fin (v_p_yes l), x_p_no = Fin (v_p_no l), x_q_yes = Fin (v_q_yes l),
      x_ev_per_yes = Fin (v_ev_per_yes l), x_ev_per_no = Fin (v_ev_per_no l),
      x_side = v_side l, x_chosen_price = map_option Fin (v_chosen_price l),
      x_chosen_q_win = map_option Fin (v_chosen_q_win l),
      x_shares = map_option Fin (v_shares l),
      x_gross_win_payout = map_option Fin (v_gross_win_payout l),
      x_fee = map_option Fin (v_fee l),
      x_ev_dollars = Fin (v_ev_dollars l), x_win_payout = Fin (v_win_payout l),
      x_lose_payout = Fin (v_lose_payout l)\<rparr>"

definition result_to_fl :: "result \<Rightarrow> result_fl" where
  "result_to_fl r =
     \<lparr>xres_question = res_question r,
      xres_p_yes_market = Fin (res_p_yes_market r),
      xres_p_no_market = Fin (res_p_no_market r),
      xres_q_yes_calibrated = Fin (res_q_yes_calibrated r),
      xres_side = res_side r,
      xres_stake = Fin (res_stake r),
      xres_chosen_price = map_option Fin (res_chosen_price r),
      xres_win_prob_of_chosen = map_option Fin (res_win_prob_of_chosen r),
      xres_ev_per_dollar = Fin (res_ev_per_dollar r),
      xres_ev_dollars = Fin (res_ev_dollars r),
      xres_win_payout_if_correct = Fin (res_win_payout_if_correct r),
      xres_lose_payout_if_wrong = Fin (res_lose_payout_if_wrong r)\<rparr>"

section \<open>pull\_30day.py: strings\<close>

text \<open>
  Python's \<^verbatim>\<open>str\<close> is idealised as an ASCII \<^typ>\<open>string\<close>. The methods below are
  \<^verbatim>\<open>str.strip\<close>, \<^verbatim>\<open>str.lower\<close>, \<^verbatim>\<open>str.capitalize\<close>, \<^verbatim>\<open>str.split(sep)\<close>,
  \<^verbatim>\<open>str.startswith\<close> and \<^verbatim>\<open>str.endswith\<close> on such strings. Characters beyond
  ASCII, among them the whitespace characters U+0085 and U+00A0 that \<^verbatim>\<open>str.strip\<close>
  also removes, are outside the model.
\<close>

definition is_space :: "char \<Rightarrow> bool" where
  "is_space c =
     (let n = (of_char c :: nat) in (9 \<le> n \<and> n \<le> 13) \<or> (28 \<le> n \<and> n \<le> 32))"

definition strip :: "string \<Rightarrow> string" where
  "strip s = rev (dropWhile is_space (rev (dropWhile is_space s)))"

definition lower_char :: "char \<Rightarrow> char" where
  "lower_char c =
     (let n = (of_char c :: nat) in if 65 \<le> n \<and> n \<le> 90 then char_of (n + 32) else c)"

definition upper_char :: "char \<Rightarrow> char" where
  "upper_char c =
     (let n = (of_char c :: nat) in if 97 \<le> n \<and> n \<le> 122 then char_of (n - 32) else c)"

definition lower :: "string \<Rightarrow> string" where
  "lower s = map lower_char s"

definition capitalize :: "string \<Rightarrow> string" where
  "capitalize s = (case s of [] \<Rightarrow> [] | c # cs \<Rightarrow> upper_char c # map lower_char cs)"

fun split :: "char \<Rightarrow> string \<Rightarrow> string list" where
  "split sep [] = [[]]"
| "split sep (c # cs) =
     (if c = sep then [] # split sep cs
      else (case split sep cs of [] \<Rightarrow> [[c]] | w # ws \<Rightarrow> (c # w) # ws))"

definition startswith :: "string \<Rightarrow> char \<Rightarrow> bool" where
  "startswith s c = (case s of [] \<Rightarrow> False | x # _ \<Rightarrow> x = c)"

definition endswith :: "string \<Rightarrow> char \<Rightarrow> bool" where
  "endswith s c = (case rev s of [] \<Rightarrow> False | x # _ \<Rightarrow> x = c)"

section \<open>pull\_30day.py: market records\<close>

text \<open>
  A value found under a key of the market dictionary: absent or \<^verbatim>\<open>None\<close>, a list
  (each element \<open>x\<close> given as \<^verbatim>\<open>str(x)\<close>), a string, or any other object (given by
  its truth value and its \<^verbatim>\<open>str\<close>).
\<close>

datatype raw = RawNone | RawList "string list" | RawStr string | RawOther bool string

definition truthy :: "raw \<Rightarrow> bool" where
  "truthy r = (case r of RawNone \<Rightarrow> False | RawList xs \<Rightarrow> xs \<noteq> []
                 | RawStr s \<Rightarrow> s \<noteq> [] | RawOther b _ \<Rightarrow> b)"

text \<open>
  The fields of a market that the program reads. \<open>outcomePrices\<close> holds the value of
  \<^verbatim>\<open>_parse_outcome_prices(m.get("outcomePrices"))\<close>, \<open>bestBid\<close> and \<open>bestAsk\<close> the
  values of \<^verbatim>\<open>_safe_float\<close> on their keys: the parsing of decimal literals by
  \<^verbatim>\<open>float\<close> is not modelled. The keys that are only copied to the output
  (\<^verbatim>\<open>id\<close>, \<^verbatim>\<open>slug\<close>, \<^verbatim>\<open>question\<close>, \<^verbatim>\<open>category\<close>, \<^verbatim>\<open>endDate\<close>) are left out.
\<close>

record market =
  outcomes :: raw
  clobTokenIds :: raw
  clob_token_ids :: raw
  outcomePrices :: "real list option"
  bestBid :: "real option"
  bestAsk :: "real option"

definition YES_ALIASES :: "string list" where
  "YES_ALIASES = [''yes'', ''y'', ''true'', ''1'']"

definition NO_ALIASES :: "string list" where
  "NO_ALIASES = [''no'', ''n'', ''false'', ''0'']"

text \<open>
  \<^verbatim>\<open>_coerce_outcomes\<close>. The library function \<^verbatim>\<open>json.loads\<close> is a parameter: on a
  string it returns the elements of the decoded list (each as \<^verbatim>\<open>str(x)\<close>), or \<open>None\<close>
  when decoding raises, in which case the code falls back to splitting at commas.
\<close>

definition nonempty_stripped :: "string list \<Rightarrow> string list" where
  "nonempty_stripped xs = map strip (filter (\<lambda>x. strip x \<noteq> []) xs)"

definition coerce_outcomes :: "(string \<Rightarrow> string list option) \<Rightarrow> raw \<Rightarrow> string list option" where
  "coerce_outcomes json_loads r =
     (let finish = (\<lambda>outs. if length outs \<noteq> 2 then None else Some (map capitalize outs))
      in case r of
           RawNone \<Rightarrow> None
         | RawList xs \<Rightarrow> finish (nonempty_stripped xs)
         | RawStr str \<Rightarrow>
             (let s = strip str
              in if startswith s CHR ''['' \<and> endswith s CHR '']'' then
                   (case json_loads s of
                      Some tmp \<Rightarrow> finish (nonempty_stripped tmp)
                    | None \<Rightarrow> finish (nonempty_stripped (split CHR '','' s)))
                 else finish (nonempty_stripped (split CHR '','' s)))
         | RawOther _ _ \<Rightarrow> None)"

definition is_binary_yes_no :: "(string \<Rightarrow> string list option) \<Rightarrow> market \<Rightarrow> bool" where
  "is_binary_yes_no json_loads m =
     (case coerce_outcomes json_loads (outcomes m) of
        Some [a, b] \<Rightarrow>
          (let is_yes = (\<lambda>x. lower x \<in> set YES_ALIASES \<or> lower x = ''yes'');
               is_no = (\<lambda>x. lower x \<in> set NO_ALIASES \<or> lower x = ''no'')
           in (is_yes a \<and> is_no b) \<or> (is_yes b \<and> is_no a))
      | _ \<Rightarrow> False)"

definition parse_token_ids_field :: "market \<Rightarrow> raw" where
  "parse_token_ids_field m =
     (if truthy (clobTokenIds m) then clobTokenIds m else clob_token_ids m)"

definition parse_token_ids :: "raw \<Rightarrow> string list" where
  "parse_token_ids r =
     (case r of
        RawNone \<Rightarrow> []
      | RawList xs \<Rightarrow> xs
      | RawStr s \<Rightarrow> nonempty_stripped (split CHR '','' s)
      | RawOther _ s \<Rightarrow> nonempty_stripped (split CHR '','' s))"

section \<open>pull\_30day.py: quotes and the summary of a market\<close>

text \<open>
  The quotes of one token: the dictionary with the keys \<^verbatim>\<open>BUY\<close>, \<^verbatim>\<open>SELL\<close>, \<^verbatim>\<open>MID\<close>,
  a missing key reading as \<open>None\<close> (the code reads the bulk quotes with \<^verbatim>\<open>.get\<close>).
\<close>

record quote =
  BUY :: "real option"
  SELL :: "real option"
  MID :: "real option"

definition no_quote :: quote where
  "no_quote = \<lparr>BUY = None, SELL = None, MID = None\<rparr>"

text \<open>\<^verbatim>\<open>price_map.get(tid, {}) if tid else {}\<close> for an optional token id.\<close>

definition bulk_quote :: "(string \<rightharpoonup> quote) \<Rightarrow> string option \<Rightarrow> quote" where
  "bulk_quote price_map tid =
     (case tid of
        None \<Rightarrow> no_quote
      | Some t \<Rightarrow> if t \<noteq> [] then (case price_map t of None \<Rightarrow> no_quote | Some q \<Rightarrow> q)
                  else no_quote)"

text \<open>
  Lines 223 to 233 of \<^verbatim>\<open>summarize_binary_market\<close>: the labels and the token ids, put
  in the order the rest of the function uses.
\<close>

definition ordered_outs_tids ::
    "(string \<Rightarrow> string list option) \<Rightarrow> market \<Rightarrow> string list \<times> string list" where
  "ordered_outs_tids json_loads m =
     (let outs = (case coerce_outcomes json_loads (outcomes m) of
                    None \<Rightarrow> [''Yes'', ''No'']
                  | Some os \<Rightarrow> os);
          tids0 = parse_token_ids (parse_token_ids_field m);
          tids = (if length tids0 \<ge> 2 then take 2 tids0 else tids0)
      in if length outs = 2 \<and> length tids = 2
            \<and> lower (outs ! 0) = ''no'' \<and> lower (outs ! 1) = ''yes''
         then ([outs ! 1, outs ! 0], [tids ! 1, tids ! 0])
         else (outs, tids))"

text \<open>
  The returned dictionary: \<open>yes_token_id\<close>, \<open>yes_best_buy\<close>, \<open>yes_best_sell\<close> are the
  entries of the nested dictionary under \<^verbatim>\<open>yes\<close>, likewise for \<^verbatim>\<open>no\<close>;
  \<open>majority_side\<close> is \<^verbatim>\<open>"YES"\<close>, \<^verbatim>\<open>"NO"\<close> or \<^verbatim>\<open>None\<close>.
\<close>

record summary =
  yes_token_id :: "string option"
  yes_best_buy :: "real option"
  yes_best_sell :: "real option"
  no_token_id :: "string option"
  no_best_buy :: "real option"
  no_best_sell :: "real option"
  q_yes_mid :: "real option"
  majority_side :: "side option"

text \<open>
  Lines 241 to 247, for one token: when the token id is truthy and the bulk quotes hold
  nothing for it, \<^verbatim>\<open>fetch_prices_single\<close> is called and its answer replaces the
  quotes. The network call is a parameter (the quotes the exchange would answer for a
  token); \<open>calls\<close> is the list of the token ids fetched so far, in the order of the
  calls.
\<close>

definition single_fallback ::
    "(string \<Rightarrow> quote) \<Rightarrow> string option \<Rightarrow> quote \<Rightarrow> string list \<Rightarrow> quote \<times> string list" where
  "single_fallback fetch_prices_single tid q calls =
     (case tid of
        None \<Rightarrow> (q, calls)
      | Some t \<Rightarrow>
          if t \<noteq> [] \<and> (BUY q = None \<and> SELL q = None \<and> MID q = None)
          then (fetch_prices_single t, calls @ [t])
          else (q, calls))"

text \<open>
  Lines 249 to 260: the Yes midpoint from the quotes. MID; else the mean of BUY and SELL;
  else BUY; else one minus the No midpoint.
\<close>

definition quotes_q_yes_mid :: "quote \<Rightarrow> quote \<Rightarrow> real option" where
  "quotes_q_yes_mid p_yes p_no =
     (let y_buy = BUY p_yes; y_sell = SELL p_yes; y_mid = MID p_yes; n_mid = MID p_no;
          q_yes_mid = (case y_mid of
                         Some v \<Rightarrow> Some v
                       | None \<Rightarrow>
                           (case y_buy of
                              Some b \<Rightarrow> (case y_sell of
                                           Some s \<Rightarrow> Some (0.5 * (b + s))
                                         | None \<Rightarrow> Some b)
                            | None \<Rightarrow> None))
      in case q_yes_mid of
           Some v \<Rightarrow> Some v
         | None \<Rightarrow> (case n_mid of Some v \<Rightarrow> Some (1 - v) | None \<Rightarrow> None))"

text \<open>
  Lines 262 to 283, entered when the quotes gave nothing: the entry of
  \<^verbatim>\<open>outcomePrices\<close> for the Yes label, else the mean of \<^verbatim>\<open>bestBid\<close> and
  \<^verbatim>\<open>bestAsk\<close>.
\<close>

definition gamma_q_yes_mid :: "market \<Rightarrow> string list \<Rightarrow> real option" where
  "gamma_q_yes_mid m outs =
     (let bid_ask = (case bestBid m of
                       Some bb \<Rightarrow> (case bestAsk m of
                                     Some ba \<Rightarrow> Some (0.5 * (bb + ba))
                                   | None \<Rightarrow> None)
                     | None \<Rightarrow> None)
      in case outcomePrices m of
           None \<Rightarrow> bid_ask
         | Some op \<Rightarrow>
             if op \<noteq> [] \<and> length op \<ge> 2 then
               (let yes_idx =
                      (if outs \<noteq> [] \<and> lower (outs ! 0) = ''yes'' then 0
                       else if outs \<noteq> [] \<and> length outs > 1 \<and> lower (outs ! 1) = ''yes''
                            then 1
                       else (0::nat))
                in if yes_idx < length op then Some (op ! yes_idx) else None)
             else bid_ask)"

text \<open>
  \<^verbatim>\<open>summarize_binary_market\<close>, returning beside the summary the list of the token ids
  it called \<^verbatim>\<open>fetch_prices_single\<close> on. Printing under \<^verbatim>\<open>verbose\<close> is left out.
\<close>

definition summarize_binary_market ::
    "(string \<Rightarrow> string list option) \<Rightarrow> (string \<Rightarrow> quote) \<Rightarrow> market
       \<Rightarrow> (string \<rightharpoonup> quote) \<Rightarrow> summary \<times> string list" where
  "summarize_binary_market json_loads fetch_prices_single m price_map =
     (let (outs, tids) = ordered_outs_tids json_loads m;
          yes_tid = (if length tids > 0 then Some (tids ! 0) else None);
          no_tid = (if length tids > 1 then Some (tids ! 1) else None);
          (p_yes, calls1) =
             single_fallback fetch_prices_single yes_tid (bulk_quote price_map yes_tid) [];
          (p_no, calls2) =
             single_fallback fetch_prices_single no_tid (bulk_quote price_map no_tid) calls1;
          q_yes_mid = (case quotes_q_yes_mid p_yes p_no of
                         Some v \<Rightarrow> Some v
                       | None \<Rightarrow> gamma_q_yes_mid m outs);
          majority_side = (case q_yes_mid of
                             None \<Rightarrow> None
                           | Some v \<Rightarrow> if v \<ge> 0.5 then Some YES else Some NO)
      in (\<lparr>yes_token_id = yes_tid, yes_best_buy = BUY p_yes, yes_best_sell = SELL p_yes,
           no_token_id = no_tid, no_best_buy = BUY p_no, no_best_sell = SELL p_no,
           q_yes_mid = q_yes_mid, majority_side = majority_side\<rparr>,
          calls2))"

section \<open>Properties of evaluate\_market\<close>

lemma py_round_zero: "py_round 0 n = 0"
  by (simp add: py_round_def round_half_even_def)

lemma shares_never_raises:
  "(if c > 0 then py_truediv stake c else Inr 0) = Inr (if c > 0 then stake / c else 0)"
  by (simp add: py_truediv_def)

lemma evaluate_market_locals_fields:
  obtains l where
    "evaluate_market_locals yes_pct no_pct stake cfg = Inr l"
    "v_p_yes l = as_prob yes_pct"
    "v_q_yes l = (if v_p_yes l > v_p_no l then majority_accuracy cfg
                  else if v_p_yes l < v_p_no l then 1 - majority_accuracy cfg else 1 / 2)"
    "v_ev_per_yes l = v_q_yes l - v_p_yes l"
    "v_ev_per_no l = (1 - v_q_yes l) - v_p_no l"
    "v_side l = (if v_ev_per_yes l < min_ev cfg \<and> v_ev_per_no l < min_ev cfg then HOLD
                 else if v_ev_per_yes l \<ge> v_ev_per_no l then YES else NO)"
    "v_chosen_price l = (case v_side l of HOLD \<Rightarrow> None | YES \<Rightarrow> Some (v_p_yes l)
                         | NO \<Rightarrow> Some (v_p_no l))"
    "v_chosen_q_win l = (case v_side l of HOLD \<Rightarrow> None | YES \<Rightarrow> Some (v_q_yes l)
                         | NO \<Rightarrow> Some (1 - v_q_yes l))"
    "v_shares l = map_option (\<lambda>c. if c > 0 then stake / c else 0) (v_chosen_price l)"
    "v_gross_win_payout l = v_shares l"
    "v_fee l = map_option (\<lambda>g. fee_rate cfg * (g - stake)) (v_gross_win_payout l)"
    "v_win_payout l = (case v_gross_win_payout l of None \<Rightarrow> 0
                       | Some g \<Rightarrow> g - fee_rate cfg * (g - stake))"
    "v_lose_payout l = 0"
    "v_ev_dollars l = (case v_chosen_q_win l of None \<Rightarrow> 0
                       | Some qw \<Rightarrow> qw * v_win_payout l - stake)"
proof -
  define py where "py = as_prob yes_pct"
  define pn0 where "pn0 = (case no_pct of None \<Rightarrow> 1 - py | Some n \<Rightarrow> as_prob n)"
  define pn where "pn = (if \<bar>(py + pn0) - 1\<bar> > 1 / 1000000 then 1 - py else pn0)"
  define q where "q = (if py > pn then majority_accuracy cfg
                   else if py < pn then 1 - majority_accuracy cfg
                   else 1 / 2)"
  define ey where "ey = q - py"
  define en where "en = (1 - q) - pn"
  have unf: "evaluate_market_locals yes_pct no_pct stake cfg =
     (if ey < min_ev cfg \<and> en < min_ev cfg then
           Inr \<lparr>v_p_yes = py, v_p_no = pn, v_q_yes = q,
                v_ev_per_yes = ey, v_ev_per_no = en,
                v_side = HOLD, v_chosen_price = None, v_chosen_q_win = None,
                v_shares = None, v_gross_win_payout = None, v_fee = None,
                v_ev_dollars = 0, v_win_payout = 0, v_lose_payout = 0\<rparr>
      else if ey \<ge> en then
           Inr \<lparr>v_p_yes = py, v_p_no = pn, v_q_yes = q,
                v_ev_per_yes = ey, v_ev_per_no = en,
                v_side = YES, v_chosen_price = Some py,
                v_chosen_q_win = Some q,
                v_shares = Some (if py > 0 then stake / py else 0),
                v_gross_win_payout = Some ((if py > 0 then stake / py else 0) * 1),
                v_fee = Some (fee_rate cfg * ((if py > 0 then stake / py else 0) * 1 - stake)),
                v_ev_dollars = (q * ((if py > 0 then stake / py else 0) * 1 - fee_rate cfg * ((if py > 0 then stake / py else 0) * 1 - stake)))
                                     + ((1 - q) * 0) - stake,
                v_win_payout = (if py > 0 then stake / py else 0) * 1 - fee_rate cfg * ((if py > 0 then stake / py else 0) * 1 - stake),
                v_lose_payout = 0\<rparr>
      else
           Inr \<lparr>v_p_yes = py, v_p_no = pn, v_q_yes = q,
                v_ev_per_yes = ey, v_ev_per_no = en,
                v_side = NO, v_chosen_price = Some pn,
                v_chosen_q_win = Some (1 - q),
                v_shares = Some (if pn > 0 then stake / pn else 0),
                v_gross_win_payout = Some ((if pn > 0 then stake / pn else 0) * 1),
                v_fee = Some (fee_rate cfg * ((if pn > 0 then stake / pn else 0) * 1 - stake)),
                v_ev_dollars = ((1 - q) * ((if pn > 0 then stake / pn else 0) * 1 - fee_rate cfg * ((if pn > 0 then stake / pn else 0) * 1 - stake)))
                                     + ((1 - (1 - q)) * 0) - stake,
                v_win_payout = (if pn > 0 then stake / pn else 0) * 1 - fee_rate cfg * ((if pn > 0 then stake / pn else 0) * 1 - stake),
                v_lose_payout = 0\<rparr>)"
    unfolding evaluate_market_locals_def Let_def shares_never_raises sum.case
      ey_def en_def q_def pn_def pn0_def py_def
    by (rule refl)
  consider (hold) "ey < min_ev cfg \<and> en < min_ev cfg"
    | (yes) "\<not> (ey < min_ev cfg \<and> en < min_ev cfg)" "ey \<ge> en"
    | (no) "\<not> (ey < min_ev cfg \<and> en < min_ev cfg)" "\<not> ey \<ge> en"
    by blast
  then show thesis
  proof cases
    case hold
    from hold have e: "evaluate_market_locals yes_pct no_pct stake cfg =
           Inr \<lparr>v_p_yes = py, v_p_no = pn, v_q_yes = q,
                v_ev_per_yes = ey, v_ev_per_no = en,
                v_side = HOLD, v_chosen_price = None, v_chosen_q_win = None,
                v_shares = None, v_gross_win_payout = None, v_fee = None,
                v_ev_dollars = 0, v_win_payout = 0, v_lose_payout = 0\<rparr>"
      by (simp only: unf if_True simp_thms)
    show ?thesis
      apply (rule that [OF e])
      apply (simp_all only: locals.simps)
      apply (fact py_def q_def ey_def en_def)+
      apply (simp_all add: hold)
      done
  next
    case yes
    from yes have e: "evaluate_market_locals yes_pct no_pct stake cfg =
           Inr \<lparr>v_p_yes = py, v_p_no = pn, v_q_yes = q,
                v_ev_per_yes = ey, v_ev_per_no = en,
                v_side = YES, v_chosen_price = Some py,
                v_chosen_q_win = Some q,
                v_shares = Some (if py > 0 then stake / py else 0),
                v_gross_win_payout = Some ((if py > 0 then stake / py else 0) * 1),
                v_fee = Some (fee_rate cfg * ((if py > 0 then stake / py else 0) * 1 - stake)),
                v_ev_dollars = (q * ((if py > 0 then stake / py else 0) * 1 - fee_rate cfg * ((if py > 0 then stake / py else 0) * 1 - stake)))
                                     + ((1 - q) * 0) - stake,
                v_win_payout = (if py > 0 then stake / py else 0) * 1 - fee_rate cfg * ((if py > 0 then stake / py else 0) * 1 - stake),
                v_lose_payout = 0\<rparr>"
      by (simp only: unf if_True if_False simp_thms)
    show ?thesis
      apply (rule that [OF e])
      apply (simp_all only: locals.simps)
      apply (fact py_def q_def ey_def en_def)+
      apply (simp_all add: yes)
      done
  next
    case no
    from no have e: "evaluate_market_locals yes_pct no_pct stake cfg =
           Inr \<lparr>v_p_yes = py, v_p_no = pn, v_q_yes = q,
                v_ev_per_yes = ey, v_ev_per_no = en,
                v_side = NO, v_chosen_price = Some pn,
                v_chosen_q_win = Some (1 - q),
                v_shares = Some (if pn > 0 then stake / pn else 0),
                v_gross_win_payout = Some ((if pn > 0 then stake / pn else 0) * 1),
                v_fee = Some (fee_rate cfg * ((if pn > 0 then stake / pn else 0) * 1 - stake)),
                v_ev_dollars = ((1 - q) * ((if pn > 0 then stake / pn else 0) * 1 - fee_rate cfg * ((if pn > 0 then stake / pn else 0) * 1 - stake)))
                                     + ((1 - (1 - q)) * 0) - stake,
                v_win_payout = (if pn > 0 then stake / pn else 0) * 1 - fee_rate cfg * ((if pn > 0 then stake / pn else 0) * 1 - stake),
                v_lose_payout = 0\<rparr>"
      by (simp only: unf if_True if_False simp_thms)
    show ?thesis
      apply (rule that [OF e])
      apply (simp_all only: locals.simps)
      apply (fact py_def q_def ey_def en_def)+
      apply (simp_all add: no)
      done
  qed
qed

lemma evaluate_market_of_locals:
  assumes "evaluate_market_locals yes_pct no_pct stake cfg = Inr l"
  shows "evaluate_market question yes_pct no_pct stake cfg =
     Inr \<lparr>res_question = question,
          res_p_yes_market = py_round (v_p_yes l) 4,
          res_p_no_market = py_round (v_p_no l) 4,
          res_q_yes_calibrated = py_round (v_q_yes l) 4,
          res_side = v_side l,
          res_stake = py_round stake 2,
          res_chosen_price = map_option (\<lambda>c. py_round c 4) (v_chosen_price l),
          res_win_prob_of_chosen = map_option (\<lambda>q. py_round q 4) (v_chosen_q_win l),
          res_ev_per_dollar =
            (if v_side l \<noteq> HOLD then py_round (max (v_ev_per_yes l) (v_ev_per_no l)) 4
             else 0),
          res_ev_dollars = py_round (v_ev_dollars l) 2,
          res_win_payout_if_correct = py_round (v_win_payout l) 2,
          res_lose_payout_if_wrong = py_round (v_lose_payout l) 2\<rparr>"
  by (simp add: evaluate_market_def assms)

lemmas em_defs =
  evaluate_market_def evaluate_market_locals_def Let_def py_truediv_def as_prob_def

lemmas round_defs = py_round_def round_half_even_def

subsection \<open>Calibration\<close>

text \<open>
  Claim C1. Whatever the inputs, \<^verbatim>\<open>evaluate_market\<close> reaches its return statement, and
  there the calibrated probability \<open>q_yes\<close> is \<open>majority_accuracy\<close> when the normalised
  \<open>p_yes\<close> is strictly greater than the normalised \<open>p_no\<close>, \<open>1 - majority_accuracy\<close>
  when it is strictly smaller, and exactly one half when the two are equal.
\<close>

theorem calibration_majority_rule:
  "\<exists>l. evaluate_market_locals yes_pct no_pct stake cfg = Inr l \<and>
     (v_p_yes l > v_p_no l \<longrightarrow> v_q_yes l = majority_accuracy cfg) \<and>
     (v_p_yes l < v_p_no l \<longrightarrow> v_q_yes l = 1 - majority_accuracy cfg) \<and>
     (v_p_yes l = v_p_no l \<longrightarrow> v_q_yes l = 1 / 2)"
proof -
  obtain l where l: "evaluate_market_locals yes_pct no_pct stake cfg = Inr l"
    and q: "v_q_yes l = (if v_p_yes l > v_p_no l then majority_accuracy cfg
                  else if v_p_yes l < v_p_no l then 1 - majority_accuracy cfg else 1 / 2)"
    by (rule evaluate_market_locals_fields)
  from q have "(v_p_yes l > v_p_no l \<longrightarrow> v_q_yes l = majority_accuracy cfg) \<and>
     (v_p_yes l < v_p_no l \<longrightarrow> v_q_yes l = 1 - majority_accuracy cfg) \<and>
     (v_p_yes l = v_p_no l \<longrightarrow> v_q_yes l = 1 / 2)"
    by simp
  with l show ?thesis by blast
qed

text \<open>
  The three branches at concrete inputs: 62 percent for Yes (majority Yes), 38 percent
  (majority No), and 50 against 50 (a tie), each with the default configuration.
\<close>

theorem calibration_majority_rule_witness:
  "(\<exists>l. evaluate_market_locals 62 None 100 Config_default = Inr l \<and>
        v_p_yes l > v_p_no l \<and> v_q_yes l = 9 / 10) \<and>
   (\<exists>l. evaluate_market_locals 38 None 100 Config_default = Inr l \<and>
        v_p_yes l < v_p_no l \<and> v_q_yes l = 1 / 10) \<and>
   (\<exists>l. evaluate_market_locals 50 (Some 50) 100 Config_default = Inr l \<and>
        v_p_yes l = v_p_no l \<and> v_q_yes l = 1 / 2)"
proof (intro conjI)
  obtain l where l: "evaluate_market_locals 62 None 100 Config_default = Inr l"
    and gt: "v_p_yes l > v_p_no l \<longrightarrow> v_q_yes l = majority_accuracy Config_default"
    using calibration_majority_rule [of 62 None 100 Config_default] by blast
  from l have "v_p_yes l > v_p_no l"
    by (auto simp: em_defs Config_default_def)
  with gt l show "\<exists>l. evaluate_market_locals 62 None 100 Config_default = Inr l \<and>
        v_p_yes l > v_p_no l \<and> v_q_yes l = 9 / 10"
    by (simp add: Config_default_def)
next
  obtain l where l: "evaluate_market_locals 38 None 100 Config_default = Inr l"
    and lt: "v_p_yes l < v_p_no l \<longrightarrow> v_q_yes l = 1 - majority_accuracy Config_default"
    using calibration_majority_rule [of 38 None 100 Config_default] by blast
  from l have "v_p_yes l < v_p_no l"
    by (auto simp: em_defs Config_default_def)
  with lt l show "\<exists>l. evaluate_market_locals 38 None 100 Config_default = Inr l \<and>
        v_p_yes l < v_p_no l \<and> v_q_yes l = 1 / 10"
    by (simp add: Config_default_def)
next
  obtain l where l: "evaluate_market_locals 50 (Some 50) 100 Config_default = Inr l"
    and eq: "v_p_yes l = v_p_no l \<longrightarrow> v_q_yes l = 1 / 2"
    using calibration_majority_rule [of 50 "Some 50" 100 Config_default] by blast
  from l have "v_p_yes l = v_p_no l"
    by (auto simp: em_defs Config_default_def)
  with eq l show "\<exists>l. evaluate_market_locals 50 (Some 50) 100 Config_default = Inr l \<and>
        v_p_yes l = v_p_no l \<and> v_q_yes l = 1 / 2"
    by simp
qed

subsection \<open>Side selection\<close>

text \<open>
  Claim C4. The per-dollar EVs are \<open>q_yes - p_yes\<close> and \<open>(1 - q_yes) - p_no\<close>; when both
  are strictly below \<open>min_ev\<close> the side is HOLD and the EV in dollars, the win payout and
  the lose payout are 0, in the local variables and in the returned dictionary.
\<close>

theorem hold_when_both_below_min_ev:
  "\<exists>l r. evaluate_market_locals yes_pct no_pct stake cfg = Inr l \<and>
     evaluate_market question yes_pct no_pct stake cfg = Inr r \<and>
     v_ev_per_yes l = v_q_yes l - v_p_yes l \<and>
     v_ev_per_no l = (1 - v_q_yes l) - v_p_no l \<and>
     (v_ev_per_yes l < min_ev cfg \<and> v_ev_per_no l < min_ev cfg \<longrightarrow>
        v_side l = HOLD \<and> v_ev_dollars l = 0 \<and> v_win_payout l = 0 \<and> v_lose_payout l = 0 \<and>
        res_side r = HOLD \<and> res_ev_dollars r = 0 \<and> res_win_payout_if_correct r = 0 \<and>
        res_lose_payout_if_wrong r = 0)"
proof -
  obtain l where l: "evaluate_market_locals yes_pct no_pct stake cfg = Inr l"
    and ey: "v_ev_per_yes l = v_q_yes l - v_p_yes l"
    and en: "v_ev_per_no l = (1 - v_q_yes l) - v_p_no l"
    and sd: "v_side l = (if v_ev_per_yes l < min_ev cfg \<and> v_ev_per_no l < min_ev cfg then HOLD
                 else if v_ev_per_yes l \<ge> v_ev_per_no l then YES else NO)"
    and cp: "v_chosen_price l = (case v_side l of HOLD \<Rightarrow> None | YES \<Rightarrow> Some (v_p_yes l)
                         | NO \<Rightarrow> Some (v_p_no l))"
    and cq: "v_chosen_q_win l = (case v_side l of HOLD \<Rightarrow> None | YES \<Rightarrow> Some (v_q_yes l)
                         | NO \<Rightarrow> Some (1 - v_q_yes l))"
    and sh: "v_shares l = map_option (\<lambda>c. if c > 0 then stake / c else 0) (v_chosen_price l)"
    and gr: "v_gross_win_payout l = v_shares l"
    and wp: "v_win_payout l = (case v_gross_win_payout l of None \<Rightarrow> 0
                       | Some g \<Rightarrow> g - fee_rate cfg * (g - stake))"
    and lp: "v_lose_payout l = 0"
    and ev: "v_ev_dollars l = (case v_chosen_q_win l of None \<Rightarrow> 0
                       | Some qw \<Rightarrow> qw * v_win_payout l - stake)"
    by (rule evaluate_market_locals_fields)
  let ?r = "projr (evaluate_market question yes_pct no_pct stake cfg)"
  have r: "evaluate_market question yes_pct no_pct stake cfg = Inr ?r"
    by (simp add: evaluate_market_of_locals [OF l])
  have held: "v_side l = HOLD \<and> v_ev_dollars l = 0 \<and> v_win_payout l = 0 \<and> v_lose_payout l = 0 \<and>
        res_side ?r = HOLD \<and> res_ev_dollars ?r = 0 \<and> res_win_payout_if_correct ?r = 0 \<and>
        res_lose_payout_if_wrong ?r = 0"
    if b: "v_ev_per_yes l < min_ev cfg" "v_ev_per_no l < min_ev cfg"
  proof -
    from sd b have s: "v_side l = HOLD" by simp
    from s cp cq sh gr wp lp ev
    have z: "v_ev_dollars l = 0" "v_win_payout l = 0" "v_lose_payout l = 0" by simp_all
    show ?thesis
      by (simp add: evaluate_market_of_locals [OF l] s z py_round_zero)
  qed
  from l r ey en held show ?thesis by blast
qed

text \<open>
  At 50 against 50 with \<open>min_ev = 0.1\<close> both per-dollar EVs are 0, below the threshold,
  and the decision is HOLD with zero payouts.
\<close>

theorem hold_when_both_below_min_ev_witness:
  "\<exists>l r. evaluate_market_locals 50 (Some 50) 10
            \<lparr>majority_accuracy = 9 / 10, min_ev = 1 / 10, fee_rate = 0\<rparr> = Inr l \<and>
     evaluate_market ''Q'' 50 (Some 50) 10
            \<lparr>majority_accuracy = 9 / 10, min_ev = 1 / 10, fee_rate = 0\<rparr> = Inr r \<and>
     v_ev_per_yes l = 0 \<and> v_ev_per_no l = 0 \<and>
     v_side l = HOLD \<and> v_ev_dollars l = 0 \<and> v_win_payout l = 0 \<and> v_lose_payout l = 0 \<and>
     res_side r = HOLD \<and> res_ev_dollars r = 0 \<and> res_win_payout_if_correct r = 0 \<and>
     res_lose_payout_if_wrong r = 0"
proof -
  let ?cfg = "\<lparr>majority_accuracy = 9 / 10, min_ev = 1 / 10, fee_rate = 0\<rparr>"
  obtain l r where l: "evaluate_market_locals 50 (Some 50) 10 ?cfg = Inr l"
    and r: "evaluate_market ''Q'' 50 (Some 50) 10 ?cfg = Inr r"
    and h: "v_ev_per_yes l < min_ev ?cfg \<and> v_ev_per_no l < min_ev ?cfg \<longrightarrow>
        v_side l = HOLD \<and> v_ev_dollars l = 0 \<and> v_win_payout l = 0 \<and> v_lose_payout l = 0 \<and>
        res_side r = HOLD \<and> res_ev_dollars r = 0 \<and> res_win_payout_if_correct r = 0 \<and>
        res_lose_payout_if_wrong r = 0"
    using hold_when_both_below_min_ev [of 50 "Some 50" 10 ?cfg "''Q''"] by blast
  from l have z: "v_ev_per_yes l = 0" "v_ev_per_no l = 0"
    by (auto simp: em_defs)
  with h have "v_side l = HOLD \<and> v_ev_dollars l = 0 \<and> v_win_payout l = 0 \<and> v_lose_payout l = 0 \<and>
        res_side r = HOLD \<and> res_ev_dollars r = 0 \<and> res_win_payout_if_correct r = 0 \<and>
        res_lose_payout_if_wrong r = 0" by simp
  with l r z show ?thesis by blast
qed

text \<open>
  Claim C5. When the decision is not HOLD and the two per-dollar EVs are equal, the side
  is YES. In particular 50 against 50 with \<open>min_ev = 0\<close> gives \<open>q_yes\<close> one half, both
  EVs 0 and the side YES, for every stake, accuracy and fee rate.
\<close>

theorem tie_resolves_to_yes:
  "(\<exists>l. evaluate_market_locals yes_pct no_pct stake cfg = Inr l \<and>
       (v_side l \<noteq> HOLD \<and> v_ev_per_yes l = v_ev_per_no l \<longrightarrow> v_side l = YES)) \<and>
   (min_ev cfg' = 0 \<longrightarrow>
      (\<exists>l. evaluate_market_locals 50 (Some 50) stake' cfg' = Inr l \<and>
         v_q_yes l = 1 / 2 \<and> v_ev_per_yes l = 0 \<and> v_ev_per_no l = 0 \<and> v_side l = YES))"
proof (intro conjI impI)
  obtain l where l: "evaluate_market_locals yes_pct no_pct stake cfg = Inr l"
    and sd: "v_side l = (if v_ev_per_yes l < min_ev cfg \<and> v_ev_per_no l < min_ev cfg then HOLD
                 else if v_ev_per_yes l \<ge> v_ev_per_no l then YES else NO)"
    by (rule evaluate_market_locals_fields)
  from sd have "v_side l \<noteq> HOLD \<and> v_ev_per_yes l = v_ev_per_no l \<longrightarrow> v_side l = YES"
    by (simp split: if_splits)
  with l show "\<exists>l. evaluate_market_locals yes_pct no_pct stake cfg = Inr l \<and>
       (v_side l \<noteq> HOLD \<and> v_ev_per_yes l = v_ev_per_no l \<longrightarrow> v_side l = YES)"
    by blast
next
  assume m: "min_ev cfg' = 0"
  have p: "as_prob 50 = 1 / 2" by (simp add: as_prob_def)
  obtain l where l: "evaluate_market_locals 50 (Some 50) stake' cfg' = Inr l"
    and py: "v_p_yes l = as_prob 50"
    and q: "v_q_yes l = (if v_p_yes l > v_p_no l then majority_accuracy cfg'
                  else if v_p_yes l < v_p_no l then 1 - majority_accuracy cfg' else 1 / 2)"
    and ey: "v_ev_per_yes l = v_q_yes l - v_p_yes l"
    and en: "v_ev_per_no l = (1 - v_q_yes l) - v_p_no l"
    and sd: "v_side l = (if v_ev_per_yes l < min_ev cfg' \<and> v_ev_per_no l < min_ev cfg' then HOLD
                 else if v_ev_per_yes l \<ge> v_ev_per_no l then YES else NO)"
    by (rule evaluate_market_locals_fields)
  have pn: "v_p_no l = 1 / 2"
    using l by (auto simp: evaluate_market_locals_def Let_def p shares_never_raises
        split: if_splits)
  from py p pn q have q2: "v_q_yes l = 1 / 2" by simp
  from ey en q2 py p pn have e0: "v_ev_per_yes l = 0" "v_ev_per_no l = 0" by simp_all
  from sd e0 m have "v_side l = YES" by simp
  with l q2 e0 show "\<exists>l. evaluate_market_locals 50 (Some 50) stake' cfg' = Inr l \<and>
         v_q_yes l = 1 / 2 \<and> v_ev_per_yes l = 0 \<and> v_ev_per_no l = 0 \<and> v_side l = YES"
    by blast
qed

text \<open>
  An input with equal EVs that is not HOLD (90 percent for Yes under the default
  configuration: both EVs are 0), and the 50 against 50 example with stake 10.
\<close>

theorem tie_resolves_to_yes_witness:
  "(\<exists>l. evaluate_market_locals 90 None 10 Config_default = Inr l \<and>
        v_side l \<noteq> HOLD \<and> v_ev_per_yes l = v_ev_per_no l \<and> v_side l = YES) \<and>
   min_ev Config_default = 0 \<and>
   (\<exists>l. evaluate_market_locals 50 (Some 50) 10 Config_default = Inr l \<and>
        v_q_yes l = 1 / 2 \<and> v_ev_per_yes l = 0 \<and> v_ev_per_no l = 0 \<and> v_side l = YES)"
proof -
  note t = tie_resolves_to_yes [of 90 None 10 Config_default Config_default 10]
  have m: "min_ev Config_default = 0" by (simp add: Config_default_def)
  from t obtain l where l: "evaluate_market_locals 90 None 10 Config_default = Inr l"
    and h: "v_side l \<noteq> HOLD \<and> v_ev_per_yes l = v_ev_per_no l \<longrightarrow> v_side l = YES"
    by blast
  from l have "v_side l \<noteq> HOLD \<and> v_ev_per_yes l = v_ev_per_no l"
    by (auto simp: em_defs Config_default_def)
  with h l have a: "\<exists>l. evaluate_market_locals 90 None 10 Config_default = Inr l \<and>
        v_side l \<noteq> HOLD \<and> v_ev_per_yes l = v_ev_per_no l \<and> v_side l = YES"
    by blast
  from t m have b: "\<exists>l. evaluate_market_locals 50 (Some 50) 10 Config_default = Inr l \<and>
        v_q_yes l = 1 / 2 \<and> v_ev_per_yes l = 0 \<and> v_ev_per_no l = 0 \<and> v_side l = YES"
    by blast
  from a m b show ?thesis by blast
qed

subsection \<open>Payouts\<close>

text \<open>
  Claim C9. \<^verbatim>\<open>evaluate_market\<close> never raises \<^verbatim>\<open>ZeroDivisionError\<close>: it returns a
  dictionary on every input. When the decision is not HOLD and the chosen price is
  exactly 0, the number of shares is 0 and so is the gross win payout.
\<close>

theorem zero_price_gives_zero_shares:
  "\<exists>l r. evaluate_market_locals yes_pct no_pct stake cfg = Inr l \<and>
     evaluate_market question yes_pct no_pct stake cfg = Inr r \<and>
     evaluate_market question yes_pct no_pct stake cfg \<noteq> Inl ZeroDivisionError \<and>
     (v_side l \<noteq> HOLD \<and> v_chosen_price l = Some 0 \<longrightarrow>
        v_shares l = Some 0 \<and> v_gross_win_payout l = Some 0)"
proof -
  obtain l where l: "evaluate_market_locals yes_pct no_pct stake cfg = Inr l"
    and sh: "v_shares l = map_option (\<lambda>c. if c > 0 then stake / c else 0) (v_chosen_price l)"
    and gr: "v_gross_win_payout l = v_shares l"
    by (rule evaluate_market_locals_fields)
  let ?r = "projr (evaluate_market question yes_pct no_pct stake cfg)"
  have r: "evaluate_market question yes_pct no_pct stake cfg = Inr ?r"
    by (simp add: evaluate_market_of_locals [OF l])
  have nr: "evaluate_market question yes_pct no_pct stake cfg \<noteq> Inl ZeroDivisionError"
    by (simp add: evaluate_market_of_locals [OF l])
  from sh gr have "v_side l \<noteq> HOLD \<and> v_chosen_price l = Some 0 \<longrightarrow>
        v_shares l = Some 0 \<and> v_gross_win_payout l = Some 0"
    by simp
  with l r nr show ?thesis by blast
qed

text \<open>
  A Yes price of 0 under the default configuration: the side is YES (EV 0.1 against
  -0.1), the chosen price is 0, and the shares and the gross payout are 0.
\<close>

theorem zero_price_gives_zero_shares_witness:
  "\<exists>l r. evaluate_market_locals 0 None 100 Config_default = Inr l \<and>
     evaluate_market ''Q'' 0 None 100 Config_default = Inr r \<and>
     v_side l = YES \<and> v_side l \<noteq> HOLD \<and> v_chosen_price l = Some 0 \<and>
     v_shares l = Some 0 \<and> v_gross_win_payout l = Some 0"
proof -
  obtain l r where l: "evaluate_market_locals 0 None 100 Config_default = Inr l"
    and r: "evaluate_market ''Q'' 0 None 100 Config_default = Inr r"
    and h: "v_side l \<noteq> HOLD \<and> v_chosen_price l = Some 0 \<longrightarrow>
        v_shares l = Some 0 \<and> v_gross_win_payout l = Some 0"
    using zero_price_gives_zero_shares [of 0 None 100 Config_default "''Q''"] by blast
  from l have v: "v_side l = YES" "v_chosen_price l = Some 0"
    by (auto simp: em_defs Config_default_def)
  with h have "v_shares l = Some 0 \<and> v_gross_win_payout l = Some 0" by simp
  with l r v show ?thesis by auto
qed

text \<open>
  Claim C8 as stated fails: with a stake of -100 at 62 percent and the default
  configuration the decision is YES, not HOLD, and the dictionary reports a win payout
  of -161.29, not 0.
\<close>

theorem negative_stake_counterexample:
  "evaluate_market ''Q'' 62 None (- 100) Config_default =
     Inr \<lparr>res_question = ''Q'', res_p_yes_market = 62 / 100,
          res_p_no_market = 38 / 100, res_q_yes_calibrated = 9 / 10,
          res_side = YES, res_stake = - 100, res_chosen_price = Some (62 / 100),
          res_win_prob_of_chosen = Some (9 / 10), res_ev_per_dollar = 28 / 100,
          res_ev_dollars = - (4516 / 100), res_win_payout_if_correct = - (16129 / 100),
          res_lose_payout_if_wrong = 0\<rparr> \<and>
   res_win_payout_if_correct (projr (evaluate_market ''Q'' 62 None (- 100) Config_default)) \<noteq> 0"
proof -
  have e: "evaluate_market_locals 62 None (- 100) Config_default =
     Inr \<lparr>v_p_yes = 31 / 50, v_p_no = 19 / 50, v_q_yes = 9 / 10,
          v_ev_per_yes = 7 / 25, v_ev_per_no = - (7 / 25), v_side = YES,
          v_chosen_price = Some (31 / 50), v_chosen_q_win = Some (9 / 10),
          v_shares = Some (- (5000 / 31)), v_gross_win_payout = Some (- (5000 / 31)),
          v_fee = Some 0, v_ev_dollars = - (1400 / 31), v_win_payout = - (5000 / 31),
          v_lose_payout = 0\<rparr>"
    by (simp add: em_defs Config_default_def)
  have rs: "py_round (31 / 50) 4 = 62 / 100" "py_round (19 / 50) 4 = 38 / 100"
    "py_round (9 / 10) 4 = 9 / 10" "py_round (7 / 25) 4 = 28 / 100"
    "py_round (- 100) 2 = - 100" "py_round (- (5000 / 31)) 2 = - (16129 / 100)"
    "py_round (- (1400 / 31)) 2 = - (4516 / 100)"
    by (simp_all add: round_defs)
  have "evaluate_market ''Q'' 62 None (- 100) Config_default =
     Inr \<lparr>res_question = ''Q'', res_p_yes_market = 62 / 100,
          res_p_no_market = 38 / 100, res_q_yes_calibrated = 9 / 10,
          res_side = YES, res_stake = - 100, res_chosen_price = Some (62 / 100),
          res_win_prob_of_chosen = Some (9 / 10), res_ev_per_dollar = 28 / 100,
          res_ev_dollars = - (4516 / 100), res_win_payout_if_correct = - (16129 / 100),
          res_lose_payout_if_wrong = 0\<rparr>"
    unfolding evaluate_market_def e by (simp add: rs py_round_zero)
  then show ?thesis by simp
qed

subsection \<open>The worked example and the absence of input validation\<close>

text \<open>
  Claim C2, as amended. For \<open>yes_pct = 62\<close>, no \<open>no_pct\<close>, stake 100, accuracy 0.90, fee
  rate 0 and \<open>min_ev = 0\<close>, the side is YES, the chosen price 0.62, the win payout
  \<open>100 / 0.62 = 5000 / 31\<close>, reported as 161.29, and the EV in dollars
  \<open>0.9 * 5000 / 31 - 100 = 1400 / 31\<close>, reported as 45.16.
\<close>

theorem example_62_percent:
  "evaluate_market_locals 62 None 100 \<lparr>majority_accuracy = 9 / 10, min_ev = 0, fee_rate = 0\<rparr> =
     Inr \<lparr>v_p_yes = 62 / 100, v_p_no = 38 / 100, v_q_yes = 9 / 10,
          v_ev_per_yes = 28 / 100, v_ev_per_no = - (28 / 100), v_side = YES,
          v_chosen_price = Some (62 / 100), v_chosen_q_win = Some (9 / 10),
          v_shares = Some (5000 / 31), v_gross_win_payout = Some (5000 / 31),
          v_fee = Some 0, v_ev_dollars = 1400 / 31, v_win_payout = 5000 / 31,
          v_lose_payout = 0\<rparr> \<and>
   evaluate_market question 62 None 100 \<lparr>majority_accuracy = 9 / 10, min_ev = 0, fee_rate = 0\<rparr> =
     Inr \<lparr>res_question = question, res_p_yes_market = 62 / 100,
          res_p_no_market = 38 / 100, res_q_yes_calibrated = 9 / 10,
          res_side = YES, res_stake = 100, res_chosen_price = Some (62 / 100),
          res_win_prob_of_chosen = Some (9 / 10), res_ev_per_dollar = 28 / 100,
          res_ev_dollars = 4516 / 100, res_win_payout_if_correct = 16129 / 100,
          res_lose_payout_if_wrong = 0\<rparr>"
proof -
  let ?cfg = "\<lparr>majority_accuracy = 9 / 10, min_ev = 0, fee_rate = 0\<rparr>"
  have e: "evaluate_market_locals 62 None 100 ?cfg =
     Inr \<lparr>v_p_yes = 62 / 100, v_p_no = 38 / 100, v_q_yes = 9 / 10,
          v_ev_per_yes = 28 / 100, v_ev_per_no = - (28 / 100), v_side = YES,
          v_chosen_price = Some (62 / 100), v_chosen_q_win = Some (9 / 10),
          v_shares = Some (5000 / 31), v_gross_win_payout = Some (5000 / 31),
          v_fee = Some 0, v_ev_dollars = 1400 / 31, v_win_payout = 5000 / 31,
          v_lose_payout = 0\<rparr>"
    by (simp add: em_defs)
  have rs: "py_round (31 / 50) 4 = 62 / 100" "py_round (19 / 50) 4 = 38 / 100"
    "py_round (9 / 10) 4 = 9 / 10" "py_round (7 / 25) 4 = 28 / 100"
    "py_round 100 2 = 100" "py_round (5000 / 31) 2 = 16129 / 100"
    "py_round (1400 / 31) 2 = 4516 / 100"
    by (simp_all add: round_defs)
  have "evaluate_market question 62 None 100 ?cfg =
     Inr \<lparr>res_question = question, res_p_yes_market = 62 / 100,
          res_p_no_market = 38 / 100, res_q_yes_calibrated = 9 / 10,
          res_side = YES, res_stake = 100, res_chosen_price = Some (62 / 100),
          res_win_prob_of_chosen = Some (9 / 10), res_ev_per_dollar = 28 / 100,
          res_ev_dollars = 4516 / 100, res_win_payout_if_correct = 16129 / 100,
          res_lose_payout_if_wrong = 0\<rparr>"
    unfolding evaluate_market_def e by (simp add: rs py_round_zero)
  with e show ?thesis by (rule conjI)
qed

text \<open>
  Claim C2 as stated fails in its last figure: on that input the EV in dollars is not
  within one dollar of 55.16, before rounding or after; the dictionary reports 45.16.
\<close>

theorem example_62_percent_counterexample:
  "res_ev_dollars (projr (evaluate_market ''Q'' 62 None 100
       \<lparr>majority_accuracy = 9 / 10, min_ev = 0, fee_rate = 0\<rparr>)) = 4516 / 100 \<and>
   \<not> \<bar>res_ev_dollars (projr (evaluate_market ''Q'' 62 None 100
       \<lparr>majority_accuracy = 9 / 10, min_ev = 0, fee_rate = 0\<rparr>)) - 5516 / 100\<bar> \<le> 1 \<and>
   \<not> \<bar>v_ev_dollars (projr (evaluate_market_locals 62 None 100
       \<lparr>majority_accuracy = 9 / 10, min_ev = 0, fee_rate = 0\<rparr>)) - 5516 / 100\<bar> \<le> 1"
proof -
  let ?cfg = "\<lparr>majority_accuracy = 9 / 10, min_ev = 0, fee_rate = 0\<rparr>"
  have e: "evaluate_market_locals 62 None 100 ?cfg =
     Inr \<lparr>v_p_yes = 62 / 100, v_p_no = 38 / 100, v_q_yes = 9 / 10,
          v_ev_per_yes = 28 / 100, v_ev_per_no = - (28 / 100), v_side = YES,
          v_chosen_price = Some (62 / 100), v_chosen_q_win = Some (9 / 10),
          v_shares = Some (5000 / 31), v_gross_win_payout = Some (5000 / 31),
          v_fee = Some 0, v_ev_dollars = 1400 / 31, v_win_payout = 5000 / 31,
          v_lose_payout = 0\<rparr>"
    by (simp add: em_defs)
  have rs: "py_round (1400 / 31) 2 = 4516 / 100"
    by (simp add: round_defs)
  have r: "res_ev_dollars (projr (evaluate_market ''Q'' 62 None 100 ?cfg)) = 4516 / 100"
    unfolding evaluate_market_def e by (simp add: rs)
  have l: "v_ev_dollars (projr (evaluate_market_locals 62 None 100 ?cfg)) = 1400 / 31"
    unfolding e by simp
  show ?thesis unfolding r l by simp
qed

text \<open>
  Claim C7, as amended. \<^verbatim>\<open>evaluate_market\<close> validates nothing: for every (finite)
  \<open>yes_pct\<close> and \<open>no_pct\<close>, inside \<open>[0, 100]\<close> or not, it returns a dictionary. The
  value of \<open>p_yes\<close> it computes from is \<open>yes_pct / 100\<close> when \<open>yes_pct > 1\<close> and
  \<open>yes_pct\<close> itself otherwise, so 150 becomes 1.5 and a negative input is used as it is.
\<close>

theorem no_range_check_on_probabilities:
  "\<exists>l r. evaluate_market_locals yes_pct no_pct stake cfg = Inr l \<and>
     evaluate_market question yes_pct no_pct stake cfg = Inr r \<and>
     v_p_yes l = (if yes_pct > 1 then yes_pct / 100 else yes_pct) \<and>
     res_p_yes_market r = py_round (v_p_yes l) 4"
proof -
  obtain l where l: "evaluate_market_locals yes_pct no_pct stake cfg = Inr l"
    and py: "v_p_yes l = as_prob yes_pct"
    by (rule evaluate_market_locals_fields)
  let ?r = "projr (evaluate_market question yes_pct no_pct stake cfg)"
  have r: "evaluate_market question yes_pct no_pct stake cfg = Inr ?r"
    by (simp add: evaluate_market_of_locals [OF l])
  have p: "res_p_yes_market ?r = py_round (v_p_yes l) 4"
    by (simp add: evaluate_market_of_locals [OF l])
  from py have "v_p_yes l = (if yes_pct > 1 then yes_pct / 100 else yes_pct)"
    by (simp add: as_prob_def)
  with l r p show ?thesis by blast
qed

text \<open>The inputs 150 and -5, both outside \<open>[0, 100]\<close>, at the default configuration.\<close>

theorem no_range_check_on_probabilities_witness:
  "(\<exists>l r. evaluate_market_locals 150 None 100 Config_default = Inr l \<and>
      evaluate_market ''Q'' 150 None 100 Config_default = Inr r \<and>
      v_p_yes l = 150 / 100 \<and> res_p_yes_market r = py_round (v_p_yes l) 4) \<and>
   (\<exists>l r. evaluate_market_locals (- 5) None 100 Config_default = Inr l \<and>
      evaluate_market ''Q'' (- 5) None 100 Config_default = Inr r \<and>
      v_p_yes l = - 5 \<and> res_p_yes_market r = py_round (v_p_yes l) 4)"
  using no_range_check_on_probabilities [of 150 None 100 Config_default "''Q''"]
    no_range_check_on_probabilities [of "- 5" None 100 Config_default "''Q''"]
  by simp

text \<open>
  Claim C7 as stated fails: the input 150, outside \<open>[0, 100]\<close>, is not rejected. The
  function returns a dictionary computed from \<open>p_yes = 1.5\<close> and \<open>p_no = -0.5\<close>, with
  side NO.
\<close>

theorem out_of_range_probability_counterexample:
  "evaluate_market ''Q'' 150 None 100 Config_default =
     Inr \<lparr>res_question = ''Q'', res_p_yes_market = 3 / 2,
          res_p_no_market = - (1 / 2), res_q_yes_calibrated = 9 / 10,
          res_side = NO, res_stake = 100, res_chosen_price = Some (- (1 / 2)),
          res_win_prob_of_chosen = Some (1 / 10), res_ev_per_dollar = 3 / 5,
          res_ev_dollars = - 100, res_win_payout_if_correct = 0,
          res_lose_payout_if_wrong = 0\<rparr> \<and>
   \<not> isl (evaluate_market ''Q'' 150 None 100 Config_default)"
proof -
  have e: "evaluate_market_locals 150 None 100 Config_default =
     Inr \<lparr>v_p_yes = 3 / 2, v_p_no = - (1 / 2), v_q_yes = 9 / 10,
          v_ev_per_yes = - (3 / 5), v_ev_per_no = 3 / 5, v_side = NO,
          v_chosen_price = Some (- (1 / 2)), v_chosen_q_win = Some (1 / 10),
          v_shares = Some 0, v_gross_win_payout = Some 0,
          v_fee = Some 0, v_ev_dollars = - 100, v_win_payout = 0,
          v_lose_payout = 0\<rparr>"
    by (simp add: em_defs Config_default_def)
  have rs: "py_round (3 / 2) 4 = 3 / 2" "py_round (- (1 / 2)) 4 = - (1 / 2)"
    "py_round (9 / 10) 4 = 9 / 10" "py_round (1 / 10) 4 = 1 / 10"
    "py_round (3 / 5) 4 = 3 / 5" "py_round 100 2 = 100" "py_round (- 100) 2 = - 100"
    by (simp_all add: round_defs)
  have "evaluate_market ''Q'' 150 None 100 Config_default =
     Inr \<lparr>res_question = ''Q'', res_p_yes_market = 3 / 2,
          res_p_no_market = - (1 / 2), res_q_yes_calibrated = 9 / 10,
          res_side = NO, res_stake = 100, res_chosen_price = Some (- (1 / 2)),
          res_win_prob_of_chosen = Some (1 / 10), res_ev_per_dollar = 3 / 5,
          res_ev_dollars = - 100, res_win_payout_if_correct = 0,
          res_lose_payout_if_wrong = 0\<rparr>"
    unfolding evaluate_market_def e by (simp add: rs py_round_zero)
  then show ?thesis by simp
qed

section \<open>Properties of summarize\_binary\_market\<close>

lemma summarize_binary_market_parts:
  assumes "summarize_binary_market jl fetch m pm = (s, calls)"
  obtains outs tids p_yes calls1 p_no where
    "ordered_outs_tids jl m = (outs, tids)"
    "yes_token_id s = (if length tids > 0 then Some (tids ! 0) else None)"
    "no_token_id s = (if length tids > 1 then Some (tids ! 1) else None)"
    "single_fallback fetch (yes_token_id s) (bulk_quote pm (yes_token_id s)) [] = (p_yes, calls1)"
    "single_fallback fetch (no_token_id s) (bulk_quote pm (no_token_id s)) calls1 = (p_no, calls)"
    "q_yes_mid s = (case quotes_q_yes_mid p_yes p_no of
                      Some v \<Rightarrow> Some v | None \<Rightarrow> gamma_q_yes_mid m outs)"
    "yes_best_buy s = BUY p_yes" "yes_best_sell s = SELL p_yes"
    "no_best_buy s = BUY p_no" "no_best_sell s = SELL p_no"
proof -
  obtain outs tids where ot: "ordered_outs_tids jl m = (outs, tids)"
    by (cases "ordered_outs_tids jl m")
  define y where "y = (if length tids > 0 then Some (tids ! 0) else None)"
  define n where "n = (if length tids > 1 then Some (tids ! 1) else None)"
  obtain p_yes calls1 where f1: "single_fallback fetch y (bulk_quote pm y) [] = (p_yes, calls1)"
    by (cases "single_fallback fetch y (bulk_quote pm y) []")
  obtain p_no calls2 where f2: "single_fallback fetch n (bulk_quote pm n) calls1 = (p_no, calls2)"
    by (cases "single_fallback fetch n (bulk_quote pm n) calls1")
  from assms have eq: "(s, calls) =
      (\<lparr>yes_token_id = y, yes_best_buy = BUY p_yes, yes_best_sell = SELL p_yes,
        no_token_id = n, no_best_buy = BUY p_no, no_best_sell = SELL p_no,
        q_yes_mid = (case quotes_q_yes_mid p_yes p_no of
                       Some v \<Rightarrow> Some v | None \<Rightarrow> gamma_q_yes_mid m outs),
        majority_side =
          (case (case quotes_q_yes_mid p_yes p_no of
                   Some v \<Rightarrow> Some v | None \<Rightarrow> gamma_q_yes_mid m outs) of
             None \<Rightarrow> None
           | Some v \<Rightarrow> if v \<ge> 0.5 then Some YES else Some NO)\<rparr>, calls2)"
    unfolding summarize_binary_market_def ot Let_def prod.case
      y_def [symmetric] n_def [symmetric] f1 f2
    by (rule sym)
  then have sy: "yes_token_id s = y" and sn: "no_token_id s = n" and c: "calls = calls2"
    by simp_all
  show thesis
  proof (rule that [OF ot])
    show "yes_token_id s = (if length tids > 0 then Some (tids ! 0) else None)"
      unfolding sy y_def ..
    show "no_token_id s = (if length tids > 1 then Some (tids ! 1) else None)"
      unfolding sn n_def ..
    show "single_fallback fetch (yes_token_id s) (bulk_quote pm (yes_token_id s)) [] = (p_yes, calls1)"
      unfolding sy by (rule f1)
    show "single_fallback fetch (no_token_id s) (bulk_quote pm (no_token_id s)) calls1 = (p_no, calls)"
      unfolding sn c by (rule f2)
  qed (use eq in simp_all)
qed

lemma ordered_outs_tids_yes_no_list:
  "ordered_outs_tids jl
     \<lparr>outcomes = RawList [''Yes'', ''No''], clobTokenIds = RawList [''tokA'', ''tokB''],
      clob_token_ids = RawNone, outcomePrices = None, bestBid = None, bestAsk = None\<rparr> =
   ([''Yes'', ''No''], [''tokA'', ''tokB''])"
  by code_simp

text \<open>
  Claim C3, as amended. \<^verbatim>\<open>fetch_prices_single\<close> is called for the Yes token exactly
  when its id is non-empty and the bulk quotes hold none of BUY, SELL and MID for it
  (likewise for the No token), and the calls come before tiers 1 to 4, which run on the
  fetched quotes. So, when the bulk quotes hold nothing for Yes but a midpoint \<open>mid\<close> for
  No, the Yes quote is fetched, it is the only fetch, and the resolved probability is the
  fetched MID, else the mean of the fetched BUY and SELL, else the fetched BUY, and
  \<open>1 - mid\<close> only when the fetched quote has neither MID nor BUY. When the bulk quotes
  hold only a SELL for Yes and a midpoint \<open>mid\<close> for No, nothing is fetched and the
  resolved probability is \<open>1 - mid\<close>.
\<close>

theorem single_fetch_precedes_tiers:
  assumes run: "summarize_binary_market jl fetch m pm = (s, calls)"
  shows
    "calls =
       (case yes_token_id s of
          None \<Rightarrow> []
        | Some t \<Rightarrow>
            if t \<noteq> [] \<and> BUY (bulk_quote pm (Some t)) = None
               \<and> SELL (bulk_quote pm (Some t)) = None \<and> MID (bulk_quote pm (Some t)) = None
            then [t] else [])
       @ (case no_token_id s of
            None \<Rightarrow> []
          | Some u \<Rightarrow>
              if u \<noteq> [] \<and> BUY (bulk_quote pm (Some u)) = None
                 \<and> SELL (bulk_quote pm (Some u)) = None \<and> MID (bulk_quote pm (Some u)) = None
              then [u] else []) \<and>
     (\<forall>t mid. yes_token_id s = Some t \<and> t \<noteq> []
          \<and> BUY (bulk_quote pm (Some t)) = None \<and> SELL (bulk_quote pm (Some t)) = None
          \<and> MID (bulk_quote pm (Some t)) = None
          \<and> MID (bulk_quote pm (no_token_id s)) = Some mid \<longrightarrow>
        calls = [t] \<and>
        q_yes_mid s =
          (case MID (fetch t) of
             Some v \<Rightarrow> Some v
           | None \<Rightarrow>
               (case BUY (fetch t) of
                  Some b \<Rightarrow> (case SELL (fetch t) of
                               Some x \<Rightarrow> Some (0.5 * (b + x))
                             | None \<Rightarrow> Some b)
                | None \<Rightarrow> Some (1 - mid)))) \<and>
     (\<forall>t x mid. yes_token_id s = Some t
          \<and> BUY (bulk_quote pm (Some t)) = None \<and> SELL (bulk_quote pm (Some t)) = Some x
          \<and> MID (bulk_quote pm (Some t)) = None
          \<and> MID (bulk_quote pm (no_token_id s)) = Some mid \<longrightarrow>
        calls = [] \<and> q_yes_mid s = Some (1 - mid))"
proof -
  from run obtain outs p_yes calls1 p_no where
    f1: "single_fallback fetch (yes_token_id s) (bulk_quote pm (yes_token_id s)) [] = (p_yes, calls1)"
    and f2: "single_fallback fetch (no_token_id s) (bulk_quote pm (no_token_id s)) calls1 = (p_no, calls)"
    and q: "q_yes_mid s = (case quotes_q_yes_mid p_yes p_no of
                      Some v \<Rightarrow> Some v | None \<Rightarrow> gamma_q_yes_mid m outs)"
    by (rule summarize_binary_market_parts)
  have a: "calls =
       (case yes_token_id s of
          None \<Rightarrow> []
        | Some t \<Rightarrow>
            if t \<noteq> [] \<and> BUY (bulk_quote pm (Some t)) = None
               \<and> SELL (bulk_quote pm (Some t)) = None \<and> MID (bulk_quote pm (Some t)) = None
            then [t] else [])
       @ (case no_token_id s of
            None \<Rightarrow> []
          | Some u \<Rightarrow>
              if u \<noteq> [] \<and> BUY (bulk_quote pm (Some u)) = None
                 \<and> SELL (bulk_quote pm (Some u)) = None \<and> MID (bulk_quote pm (Some u)) = None
              then [u] else [])"
    using f1 f2 by (auto simp: single_fallback_def split: option.splits if_splits)
  have b: "calls = [t] \<and>
        q_yes_mid s =
          (case MID (fetch t) of
             Some v \<Rightarrow> Some v
           | None \<Rightarrow>
               (case BUY (fetch t) of
                  Some b \<Rightarrow> (case SELL (fetch t) of
                               Some x \<Rightarrow> Some (0.5 * (b + x))
                             | None \<Rightarrow> Some b)
                | None \<Rightarrow> Some (1 - mid)))"
    if h: "yes_token_id s = Some t" "t \<noteq> []"
      "BUY (bulk_quote pm (Some t)) = None" "SELL (bulk_quote pm (Some t)) = None"
      "MID (bulk_quote pm (Some t)) = None"
      "MID (bulk_quote pm (no_token_id s)) = Some mid" for t mid
  proof -
    from f1 h have y: "p_yes = fetch t" "calls1 = [t]"
      by (simp_all add: single_fallback_def)
    from f2 h y have n: "p_no = bulk_quote pm (no_token_id s)" "calls = [t]"
      by (auto simp: single_fallback_def split: option.splits if_splits)
    from q y n h show ?thesis
      by (simp add: quotes_q_yes_mid_def Let_def split: option.splits)
  qed
  have c: "calls = [] \<and> q_yes_mid s = Some (1 - mid)"
    if h: "yes_token_id s = Some t"
      "BUY (bulk_quote pm (Some t)) = None" "SELL (bulk_quote pm (Some t)) = Some x"
      "MID (bulk_quote pm (Some t)) = None"
      "MID (bulk_quote pm (no_token_id s)) = Some mid" for t x mid
  proof -
    from f1 h have y: "p_yes = bulk_quote pm (Some t)" "calls1 = []"
      by (simp_all add: single_fallback_def)
    from f2 h y have n: "p_no = bulk_quote pm (no_token_id s)" "calls = []"
      by (auto simp: single_fallback_def split: option.splits if_splits)
    from q y n h show ?thesis
      by (simp add: quotes_q_yes_mid_def Let_def)
  qed
  from a b c show ?thesis by blast
qed
lemma summarize_yes_fetched:
  "summarize_binary_market jl
     (\<lambda>t. if t = ''tokA'' then \<lparr>BUY = None, SELL = None, MID = Some (6 / 10)\<rparr> else no_quote)
     \<lparr>outcomes = RawList [''Yes'', ''No''], clobTokenIds = RawList [''tokA'', ''tokB''],
      clob_token_ids = RawNone, outcomePrices = None, bestBid = None, bestAsk = None\<rparr>
     [''tokA'' \<mapsto> no_quote, ''tokB'' \<mapsto> \<lparr>BUY = None, SELL = None, MID = Some (3 / 10)\<rparr>] =
   (\<lparr>yes_token_id = Some ''tokA'', yes_best_buy = None, yes_best_sell = None,
     no_token_id = Some ''tokB'', no_best_buy = None, no_best_sell = None,
     q_yes_mid = Some (6 / 10), majority_side = Some YES\<rparr>,
    [''tokA''])"
  unfolding summarize_binary_market_def ordered_outs_tids_yes_no_list
  by (simp add: Let_def bulk_quote_def single_fallback_def quotes_q_yes_mid_def no_quote_def)

lemma summarize_yes_sell_only:
  "summarize_binary_market jl (\<lambda>t. no_quote)
     \<lparr>outcomes = RawList [''Yes'', ''No''], clobTokenIds = RawList [''tokA'', ''tokB''],
      clob_token_ids = RawNone, outcomePrices = None, bestBid = None, bestAsk = None\<rparr>
     [''tokA'' \<mapsto> \<lparr>BUY = None, SELL = Some (1 / 10), MID = None\<rparr>,
      ''tokB'' \<mapsto> \<lparr>BUY = None, SELL = None, MID = Some (3 / 10)\<rparr>] =
   (\<lparr>yes_token_id = Some ''tokA'', yes_best_buy = None, yes_best_sell = Some (1 / 10),
     no_token_id = Some ''tokB'', no_best_buy = None, no_best_sell = None,
     q_yes_mid = Some (7 / 10), majority_side = Some YES\<rparr>,
    [])"
  unfolding summarize_binary_market_def ordered_outs_tids_yes_no_list
  by (simp add: Let_def bulk_quote_def single_fallback_def quotes_q_yes_mid_def no_quote_def)

text \<open>
  Two runs on a market with labels Yes, No and tokens tokA, tokB, the bulk quotes
  holding a No midpoint of 0.3. With nothing for tokA in the bulk quotes and a fetched
  Yes midpoint of 0.6, tokA is fetched and the result is 0.6. With only a SELL for tokA
  in the bulk quotes, nothing is fetched and the result is 0.7.
\<close>

theorem single_fetch_precedes_tiers_witness:
  "snd (summarize_binary_market (\<lambda>s. None)
     (\<lambda>t. if t = ''tokA'' then \<lparr>BUY = None, SELL = None, MID = Some (6 / 10)\<rparr> else no_quote)
     \<lparr>outcomes = RawList [''Yes'', ''No''], clobTokenIds = RawList [''tokA'', ''tokB''],
      clob_token_ids = RawNone, outcomePrices = None, bestBid = None, bestAsk = None\<rparr>
     [''tokA'' \<mapsto> no_quote, ''tokB'' \<mapsto> \<lparr>BUY = None, SELL = None, MID = Some (3 / 10)\<rparr>])
     = [''tokA''] \<and>
   q_yes_mid (fst (summarize_binary_market (\<lambda>s. None)
     (\<lambda>t. if t = ''tokA'' then \<lparr>BUY = None, SELL = None, MID = Some (6 / 10)\<rparr> else no_quote)
     \<lparr>outcomes = RawList [''Yes'', ''No''], clobTokenIds = RawList [''tokA'', ''tokB''],
      clob_token_ids = RawNone, outcomePrices = None, bestBid = None, bestAsk = None\<rparr>
     [''tokA'' \<mapsto> no_quote, ''tokB'' \<mapsto> \<lparr>BUY = None, SELL = None, MID = Some (3 / 10)\<rparr>]))
     = Some (6 / 10) \<and>
   snd (summarize_binary_market (\<lambda>s. None) (\<lambda>t. no_quote)
     \<lparr>outcomes = RawList [''Yes'', ''No''], clobTokenIds = RawList [''tokA'', ''tokB''],
      clob_token_ids = RawNone, outcomePrices = None, bestBid = None, bestAsk = None\<rparr>
     [''tokA'' \<mapsto> \<lparr>BUY = None, SELL = Some (1 / 10), MID = None\<rparr>,
      ''tokB'' \<mapsto> \<lparr>BUY = None, SELL = None, MID = Some (3 / 10)\<rparr>])
     = [] \<and>
   q_yes_mid (fst (summarize_binary_market (\<lambda>s. None) (\<lambda>t. no_quote)
     \<lparr>outcomes = RawList [''Yes'', ''No''], clobTokenIds = RawList [''tokA'', ''tokB''],
      clob_token_ids = RawNone, outcomePrices = None, bestBid = None, bestAsk = None\<rparr>
     [''tokA'' \<mapsto> \<lparr>BUY = None, SELL = Some (1 / 10), MID = None\<rparr>,
      ''tokB'' \<mapsto> \<lparr>BUY = None, SELL = None, MID = Some (3 / 10)\<rparr>]))
     = Some (1 - 3 / 10)"
proof -
  let ?m = "\<lparr>outcomes = RawList [''Yes'', ''No''], clobTokenIds = RawList [''tokA'', ''tokB''],
      clob_token_ids = RawNone, outcomePrices = None, bestBid = None, bestAsk = None\<rparr>"
  let ?f1 = "\<lambda>t. if t = ''tokA'' then \<lparr>BUY = None, SELL = None, MID = Some (6 / 10)\<rparr>
                 else no_quote"
  let ?pm1 = "[''tokA'' \<mapsto> no_quote,
               ''tokB'' \<mapsto> \<lparr>BUY = None, SELL = None, MID = Some (3 / 10 :: real)\<rparr>]"
  let ?s1 = "\<lparr>yes_token_id = Some ''tokA'', yes_best_buy = None, yes_best_sell = None,
     no_token_id = Some ''tokB'', no_best_buy = None, no_best_sell = None,
     q_yes_mid = Some (6 / 10), majority_side = Some YES\<rparr>"
  let ?pm2 = "[''tokA'' \<mapsto> \<lparr>BUY = None, SELL = Some (1 / 10 :: real), MID = None\<rparr>,
      ''tokB'' \<mapsto> \<lparr>BUY = None, SELL = None, MID = Some (3 / 10 :: real)\<rparr>]"
  let ?s2 = "\<lparr>yes_token_id = Some ''tokA'', yes_best_buy = None, yes_best_sell = Some (1 / 10),
     no_token_id = Some ''tokB'', no_best_buy = None, no_best_sell = None,
     q_yes_mid = Some (7 / 10), majority_side = Some YES\<rparr>"
  have r1: "summarize_binary_market (\<lambda>s. None) ?f1 ?m ?pm1 = (?s1, [''tokA''])"
    by (rule summarize_yes_fetched)
  have r2: "summarize_binary_market (\<lambda>s. None) (\<lambda>t. no_quote) ?m ?pm2 = (?s2, [])"
    by (rule summarize_yes_sell_only)
  note t1 = single_fetch_precedes_tiers [OF r1]
  note t2 = single_fetch_precedes_tiers [OF r2]
  have h1: "yes_token_id ?s1 = Some ''tokA'' \<and> ''tokA'' \<noteq> []
          \<and> BUY (bulk_quote ?pm1 (Some ''tokA'')) = None
          \<and> SELL (bulk_quote ?pm1 (Some ''tokA'')) = None
          \<and> MID (bulk_quote ?pm1 (Some ''tokA'')) = None
          \<and> MID (bulk_quote ?pm1 (no_token_id ?s1)) = Some (3 / 10)"
    by (simp add: bulk_quote_def no_quote_def)
  from t1 h1 have c1: "[''tokA''] = [''tokA''] \<and> q_yes_mid ?s1 =
          (case MID (?f1 ''tokA'') of
             Some v \<Rightarrow> Some v
           | None \<Rightarrow>
               (case BUY (?f1 ''tokA'') of
                  Some b \<Rightarrow> (case SELL (?f1 ''tokA'') of
                               Some x \<Rightarrow> Some (0.5 * (b + x))
                             | None \<Rightarrow> Some b)
                | None \<Rightarrow> Some (1 - 3 / 10)))"
    by blast
  have h2: "yes_token_id ?s2 = Some ''tokA''
          \<and> BUY (bulk_quote ?pm2 (Some ''tokA'')) = None
          \<and> SELL (bulk_quote ?pm2 (Some ''tokA'')) = Some (1 / 10)
          \<and> MID (bulk_quote ?pm2 (Some ''tokA'')) = None
          \<and> MID (bulk_quote ?pm2 (no_token_id ?s2)) = Some (3 / 10)"
    by (simp add: bulk_quote_def no_quote_def)
  from t2 h2 have c2: "([]::string list) = [] \<and> q_yes_mid ?s2 = Some (1 - 3 / 10)"
    by blast
  from c1 have q1: "q_yes_mid ?s1 = Some (6 / 10)" by simp
  from c1 c2 q1 show ?thesis unfolding r1 r2 fst_conv snd_conv by blast
qed

text \<open>
  Claim C3 as stated fails on the first of these runs: the bulk quotes hold no Yes-side
  value and a No midpoint of 0.3, yet \<^verbatim>\<open>fetch_prices_single\<close> is called on the Yes
  token, and the resolved probability is the fetched 0.6, not \<open>1 - 0.3\<close>.
\<close>

theorem yes_single_fetch_counterexample:
  "snd (summarize_binary_market (\<lambda>s. None)
     (\<lambda>t. if t = ''tokA'' then \<lparr>BUY = None, SELL = None, MID = Some (6 / 10)\<rparr> else no_quote)
     \<lparr>outcomes = RawList [''Yes'', ''No''], clobTokenIds = RawList [''tokA'', ''tokB''],
      clob_token_ids = RawNone, outcomePrices = None, bestBid = None, bestAsk = None\<rparr>
     [''tokA'' \<mapsto> no_quote, ''tokB'' \<mapsto> \<lparr>BUY = None, SELL = None, MID = Some (3 / 10)\<rparr>])
     \<noteq> [] \<and>
   q_yes_mid (fst (summarize_binary_market (\<lambda>s. None)
     (\<lambda>t. if t = ''tokA'' then \<lparr>BUY = None, SELL = None, MID = Some (6 / 10)\<rparr> else no_quote)
     \<lparr>outcomes = RawList [''Yes'', ''No''], clobTokenIds = RawList [''tokA'', ''tokB''],
      clob_token_ids = RawNone, outcomePrices = None, bestBid = None, bestAsk = None\<rparr>
     [''tokA'' \<mapsto> no_quote, ''tokB'' \<mapsto> \<lparr>BUY = None, SELL = None, MID = Some (3 / 10)\<rparr>]))
     \<noteq> Some (1 - 3 / 10) \<and>
   summarize_binary_market (\<lambda>s. None)
     (\<lambda>t. if t = ''tokA'' then \<lparr>BUY = None, SELL = None, MID = Some (6 / 10)\<rparr> else no_quote)
     \<lparr>outcomes = RawList [''Yes'', ''No''], clobTokenIds = RawList [''tokA'', ''tokB''],
      clob_token_ids = RawNone, outcomePrices = None, bestBid = None, bestAsk = None\<rparr>
     [''tokA'' \<mapsto> no_quote, ''tokB'' \<mapsto> \<lparr>BUY = None, SELL = None, MID = Some (3 / 10)\<rparr>] =
   (\<lparr>yes_token_id = Some ''tokA'', yes_best_buy = None, yes_best_sell = None,
     no_token_id = Some ''tokB'', no_best_buy = None, no_best_sell = None,
     q_yes_mid = Some (6 / 10), majority_side = Some YES\<rparr>,
    [''tokA''])"
  unfolding summarize_yes_fetched [of "\<lambda>s. None"] by simp

subsection \<open>The order of labels and token ids\<close>

lemma summarize_token_ids:
  "yes_token_id (fst (summarize_binary_market jl fetch m pm)) =
     (if length (snd (ordered_outs_tids jl m)) > 0
      then Some (snd (ordered_outs_tids jl m) ! 0) else None)"
  "no_token_id (fst (summarize_binary_market jl fetch m pm)) =
     (if length (snd (ordered_outs_tids jl m)) > 1
      then Some (snd (ordered_outs_tids jl m) ! 1) else None)"
  by (simp_all add: summarize_binary_market_def Let_def split_beta)

text \<open>
  Labels that read no, yes in this order (in any letter case, after trimming) are
  swapped together with the first two token ids.
\<close>

lemma literal_no_yes_swapped:
  assumes "coerce_outcomes jl (outcomes m) = Some [a, b]"
    and "lower a = ''no''" and "lower b = ''yes''"
    and "parse_token_ids (parse_token_ids_field m) = t0 # t1 # rest"
  shows "ordered_outs_tids jl m = ([b, a], [t1, t0])"
  using assms by (simp add: ordered_outs_tids_def Let_def)

text \<open>
  Claim C6, evaluated on the code. The market with labels N, Y and token ids tokA, tokB
  passes \<^verbatim>\<open>is_binary_yes_no\<close> (the labels are aliases of No and Yes), but
  \<^verbatim>\<open>summarize_binary_market\<close> compares the labels with the literal words only: nothing
  is swapped, and the token reported for Yes is tokA, the token of the label N. For the
  literal labels No, Yes of the specification's example, labels and token ids are
  swapped together, and the token reported for Yes is tokB.
\<close>

theorem alias_labels_are_not_reordered:
  "is_binary_yes_no jl
     \<lparr>outcomes = RawList [''N'', ''Y''], clobTokenIds = RawList [''tokA'', ''tokB''],
      clob_token_ids = RawNone, outcomePrices = None, bestBid = None, bestAsk = None\<rparr> \<and>
   ordered_outs_tids jl
     \<lparr>outcomes = RawList [''N'', ''Y''], clobTokenIds = RawList [''tokA'', ''tokB''],
      clob_token_ids = RawNone, outcomePrices = None, bestBid = None, bestAsk = None\<rparr> =
     ([''N'', ''Y''], [''tokA'', ''tokB'']) \<and>
   yes_token_id (fst (summarize_binary_market jl fetch
     \<lparr>outcomes = RawList [''N'', ''Y''], clobTokenIds = RawList [''tokA'', ''tokB''],
      clob_token_ids = RawNone, outcomePrices = None, bestBid = None, bestAsk = None\<rparr> pm)) =
     Some ''tokA'' \<and>
   no_token_id (fst (summarize_binary_market jl fetch
     \<lparr>outcomes = RawList [''N'', ''Y''], clobTokenIds = RawList [''tokA'', ''tokB''],
      clob_token_ids = RawNone, outcomePrices = None, bestBid = None, bestAsk = None\<rparr> pm)) =
     Some ''tokB'' \<and>
   is_binary_yes_no jl
     \<lparr>outcomes = RawList [''No'', ''Yes''], clobTokenIds = RawList [''tokA'', ''tokB''],
      clob_token_ids = RawNone, outcomePrices = None, bestBid = None, bestAsk = None\<rparr> \<and>
   ordered_outs_tids jl
     \<lparr>outcomes = RawList [''No'', ''Yes''], clobTokenIds = RawList [''tokA'', ''tokB''],
      clob_token_ids = RawNone, outcomePrices = None, bestBid = None, bestAsk = None\<rparr> =
     ([''Yes'', ''No''], [''tokB'', ''tokA'']) \<and>
   yes_token_id (fst (summarize_binary_market jl fetch
     \<lparr>outcomes = RawList [''No'', ''Yes''], clobTokenIds = RawList [''tokA'', ''tokB''],
      clob_token_ids = RawNone, outcomePrices = None, bestBid = None, bestAsk = None\<rparr> pm)) =
     Some ''tokB'' \<and>
   no_token_id (fst (summarize_binary_market jl fetch
     \<lparr>outcomes = RawList [''No'', ''Yes''], clobTokenIds = RawList [''tokA'', ''tokB''],
      clob_token_ids = RawNone, outcomePrices = None, bestBid = None, bestAsk = None\<rparr> pm)) =
     Some ''tokA''"
proof -
  let ?a = "\<lparr>outcomes = RawList [''N'', ''Y''], clobTokenIds = RawList [''tokA'', ''tokB''],
      clob_token_ids = RawNone, outcomePrices = None, bestBid = None, bestAsk = None\<rparr>"
  let ?l = "\<lparr>outcomes = RawList [''No'', ''Yes''], clobTokenIds = RawList [''tokA'', ''tokB''],
      clob_token_ids = RawNone, outcomePrices = None, bestBid = None, bestAsk = None\<rparr>"
  have ba: "is_binary_yes_no jl ?a" by code_simp
  have oa: "ordered_outs_tids jl ?a = ([''N'', ''Y''], [''tokA'', ''tokB''])" by code_simp
  have bl: "is_binary_yes_no jl ?l" by code_simp
  have ol: "ordered_outs_tids jl ?l = ([''Yes'', ''No''], [''tokB'', ''tokA''])" by code_simp
  have ya: "yes_token_id (fst (summarize_binary_market jl fetch ?a pm)) = Some ''tokA''"
    and na: "no_token_id (fst (summarize_binary_market jl fetch ?a pm)) = Some ''tokB''"
    unfolding summarize_token_ids oa by simp_all
  have yl: "yes_token_id (fst (summarize_binary_market jl fetch ?l pm)) = Some ''tokB''"
    and nl: "no_token_id (fst (summarize_binary_market jl fetch ?l pm)) = Some ''tokA''"
    unfolding summarize_token_ids ol by simp_all
  from ba oa ya na bl ol yl nl show ?thesis by (intro conjI)
qed

section \<open>Properties of evaluate\_market on floats with NaN and infinities\<close>

lemma fl_lt_zero_not_zero: "fl_lt (Fin 0) c \<Longrightarrow> c \<noteq> Fin 0"
  by (cases c) simp_all

lemma shares_fl_never_raises:
  "(if fl_lt (Fin 0) c then fl_truediv stake c else Inr (Fin 0)) =
     Inr (if fl_lt (Fin 0) c then fl_quot stake c else Fin 0)"
  by (simp add: fl_truediv_def fl_lt_zero_not_zero)

lemma fl_round_zero: "fl_round (Fin 0) n = Fin 0"
  by (simp add: fl_round_def py_round_zero)

lemma fl_not_lt_iff_le: "a \<noteq> NaN \<Longrightarrow> b \<noteq> NaN \<Longrightarrow> (\<not> fl_lt a b) = fl_le b a"
  by (cases a; cases b) auto

lemma fl_le_refl: "a \<noteq> NaN \<Longrightarrow> fl_le a a"
  by (cases a) simp_all

lemma fl_le_lt_trans_not: "b \<noteq> NaN \<Longrightarrow> fl_le a b \<Longrightarrow> \<not> fl_lt a m \<Longrightarrow> m \<noteq> NaN \<Longrightarrow> fl_le m b"
  by (cases a; cases b; cases m) auto

lemma evaluate_market_locals_fl_fields:
  obtains l where
    "evaluate_market_locals_fl yes_pct no_pct stake cfg = Inr l"
    "x_p_yes l = as_prob_fl yes_pct"
    "x_p_no l =
       (if fl_lt (Fin (1 / 1000000))
             (fl_abs (fl_sub (fl_add (as_prob_fl yes_pct)
                (case no_pct of None \<Rightarrow> fl_sub (Fin 1) (as_prob_fl yes_pct)
                 | Some n \<Rightarrow> as_prob_fl n)) (Fin 1)))
        then fl_sub (Fin 1) (as_prob_fl yes_pct)
        else (case no_pct of None \<Rightarrow> fl_sub (Fin 1) (as_prob_fl yes_pct)
              | Some n \<Rightarrow> as_prob_fl n))"
    "x_q_yes l = (if fl_lt (x_p_no l) (x_p_yes l) then fl_majority_accuracy cfg
                  else if fl_lt (x_p_yes l) (x_p_no l)
                       then fl_sub (Fin 1) (fl_majority_accuracy cfg)
                  else Fin (1 / 2))"
    "x_ev_per_yes l = fl_sub (x_q_yes l) (x_p_yes l)"
    "x_ev_per_no l = fl_sub (fl_sub (Fin 1) (x_q_yes l)) (x_p_no l)"
    "x_side l = (if fl_lt (x_ev_per_yes l) (fl_min_ev cfg) \<and> fl_lt (x_ev_per_no l) (fl_min_ev cfg)
                 then HOLD
                 else if fl_le (x_ev_per_no l) (x_ev_per_yes l) then YES else NO)"
    "x_chosen_price l = (case x_side l of HOLD \<Rightarrow> None | YES \<Rightarrow> Some (x_p_yes l)
                         | NO \<Rightarrow> Some (x_p_no l))"
    "x_shares l = map_option (\<lambda>c. if fl_lt (Fin 0) c then fl_quot stake c else Fin 0)
                    (x_chosen_price l)"
    "x_gross_win_payout l = map_option (\<lambda>s. fl_mul s (Fin 1)) (x_shares l)"
    "x_win_payout l = (case x_gross_win_payout l of None \<Rightarrow> Fin 0
                       | Some g \<Rightarrow> fl_sub g (fl_mul (fl_fee_rate cfg) (fl_sub g stake)))"
    "x_lose_payout l = Fin 0"
proof -
  define py where "py = as_prob_fl yes_pct"
  define pn0 where "pn0 = (case no_pct of None \<Rightarrow> fl_sub (Fin 1) py | Some n \<Rightarrow> as_prob_fl n)"
  define pn where "pn = (if fl_lt (Fin (1 / 1000000)) (fl_abs (fl_sub (fl_add py pn0) (Fin 1)))
                  then fl_sub (Fin 1) py else pn0)"
  define q where "q = (if fl_lt pn py then fl_majority_accuracy cfg
                   else if fl_lt py pn then fl_sub (Fin 1) (fl_majority_accuracy cfg)
                   else Fin (1 / 2))"
  define ey where "ey = fl_sub q py"
  define en where "en = fl_sub (fl_sub (Fin 1) q) pn"
  define sh where "sh c = (if fl_lt (Fin 0) c then fl_quot stake c else Fin 0)" for c
  define wn where "wn c = fl_sub (fl_mul (sh c) (Fin 1))
      (fl_mul (fl_fee_rate cfg) (fl_sub (fl_mul (sh c) (Fin 1)) stake))" for c
  have pn': "pn =
       (if fl_lt (Fin (1 / 1000000))
             (fl_abs (fl_sub (fl_add (as_prob_fl yes_pct)
                (case no_pct of None \<Rightarrow> fl_sub (Fin 1) (as_prob_fl yes_pct)
                 | Some n \<Rightarrow> as_prob_fl n)) (Fin 1)))
        then fl_sub (Fin 1) (as_prob_fl yes_pct)
        else (case no_pct of None \<Rightarrow> fl_sub (Fin 1) (as_prob_fl yes_pct)
              | Some n \<Rightarrow> as_prob_fl n))"
    unfolding pn_def pn0_def py_def ..
  have unf: "evaluate_market_locals_fl yes_pct no_pct stake cfg =
     (if fl_lt ey (fl_min_ev cfg) \<and> fl_lt en (fl_min_ev cfg) then
           Inr \<lparr>x_p_yes = py, x_p_no = pn, x_q_yes = q,
                x_ev_per_yes = ey, x_ev_per_no = en,
                x_side = HOLD, x_chosen_price = None, x_chosen_q_win = None,
                x_shares = None, x_gross_win_payout = None, x_fee = None,
                x_ev_dollars = Fin 0, x_win_payout = Fin 0, x_lose_payout = Fin 0\<rparr>
      else if fl_le en ey then
           Inr \<lparr>x_p_yes = py, x_p_no = pn, x_q_yes = q,
                x_ev_per_yes = ey, x_ev_per_no = en,
                x_side = YES, x_chosen_price = Some py,
                x_chosen_q_win = Some q,
                x_shares = Some (sh py),
                x_gross_win_payout = Some (fl_mul (sh py) (Fin 1)),
                x_fee = Some (fl_mul (fl_fee_rate cfg) (fl_sub (fl_mul (sh py) (Fin 1)) stake)),
                x_ev_dollars = fl_sub (fl_add (fl_mul q (wn py))
                                         (fl_mul (fl_sub (Fin 1) q) (Fin 0))) stake,
                x_win_payout = wn py,
                x_lose_payout = Fin 0\<rparr>
      else
           Inr \<lparr>x_p_yes = py, x_p_no = pn, x_q_yes = q,
                x_ev_per_yes = ey, x_ev_per_no = en,
                x_side = NO, x_chosen_price = Some pn,
                x_chosen_q_win = Some (fl_sub (Fin 1) q),
                x_shares = Some (sh pn),
                x_gross_win_payout = Some (fl_mul (sh pn) (Fin 1)),
                x_fee = Some (fl_mul (fl_fee_rate cfg) (fl_sub (fl_mul (sh pn) (Fin 1)) stake)),
                x_ev_dollars = fl_sub (fl_add (fl_mul (fl_sub (Fin 1) q) (wn pn))
                                         (fl_mul (fl_sub (Fin 1) (fl_sub (Fin 1) q)) (Fin 0))) stake,
                x_win_payout = wn pn,
                x_lose_payout = Fin 0\<rparr>)"
    unfolding evaluate_market_locals_fl_def Let_def shares_fl_never_raises sum.case
      wn_def sh_def ey_def en_def q_def pn_def pn0_def py_def
    by (rule refl)
  consider (hold) "fl_lt ey (fl_min_ev cfg) \<and> fl_lt en (fl_min_ev cfg)"
    | (yes) "\<not> (fl_lt ey (fl_min_ev cfg) \<and> fl_lt en (fl_min_ev cfg))" "fl_le en ey"
    | (no) "\<not> (fl_lt ey (fl_min_ev cfg) \<and> fl_lt en (fl_min_ev cfg))" "\<not> fl_le en ey"
    by blast
  then show thesis
  proof cases
    case hold
    from hold have e: "evaluate_market_locals_fl yes_pct no_pct stake cfg =
           Inr \<lparr>x_p_yes = py, x_p_no = pn, x_q_yes = q,
                x_ev_per_yes = ey, x_ev_per_no = en,
                x_side = HOLD, x_chosen_price = None, x_chosen_q_win = None,
                x_shares = None, x_gross_win_payout = None, x_fee = None,
                x_ev_dollars = Fin 0, x_win_payout = Fin 0, x_lose_payout = Fin 0\<rparr>"
      by (simp only: unf if_True simp_thms)
    show ?thesis
      apply (rule that [OF e])
      apply (simp_all only: locals_fl.simps)
      apply (fact py_def pn' q_def ey_def en_def)+
      apply (simp_all add: hold)
      done
  next
    case yes
    from yes have e: "evaluate_market_locals_fl yes_pct no_pct stake cfg =
           Inr \<lparr>x_p_yes = py, x_p_no = pn, x_q_yes = q,
                x_ev_per_yes = ey, x_ev_per_no = en,
                x_side = YES, x_chosen_price = Some py,
                x_chosen_q_win = Some q,
                x_shares = Some (sh py),
                x_gross_win_payout = Some (fl_mul (sh py) (Fin 1)),
                x_fee = Some (fl_mul (fl_fee_rate cfg) (fl_sub (fl_mul (sh py) (Fin 1)) stake)),
                x_ev_dollars = fl_sub (fl_add (fl_mul q (wn py))
                                         (fl_mul (fl_sub (Fin 1) q) (Fin 0))) stake,
                x_win_payout = wn py,
                x_lose_payout = Fin 0\<rparr>"
      by (simp only: unf if_True if_False simp_thms)
    show ?thesis
      apply (rule that [OF e])
      apply (simp_all only: locals_fl.simps)
      apply (fact py_def pn' q_def ey_def en_def)+
      apply (simp_all add: yes sh_def wn_def)
      done
  next
    case no
    from no have e: "evaluate_market_locals_fl yes_pct no_pct stake cfg =
           Inr \<lparr>x_p_yes = py, x_p_no = pn, x_q_yes = q,
                x_ev_per_yes = ey, x_ev_per_no = en,
                x_side = NO, x_chosen_price = Some pn,
                x_chosen_q_win = Some (fl_sub (Fin 1) q),
                x_shares = Some (sh pn),
                x_gross_win_payout = Some (fl_mul (sh pn) (Fin 1)),
                x_fee = Some (fl_mul (fl_fee_rate cfg) (fl_sub (fl_mul (sh pn) (Fin 1)) stake)),
                x_ev_dollars = fl_sub (fl_add (fl_mul (fl_sub (Fin 1) q) (wn pn))
                                         (fl_mul (fl_sub (Fin 1) (fl_sub (Fin 1) q)) (Fin 0))) stake,
                x_win_payout = wn pn,
                x_lose_payout = Fin 0\<rparr>"
      by (simp only: unf if_True if_False simp_thms)
    show ?thesis
      apply (rule that [OF e])
      apply (simp_all only: locals_fl.simps)
      apply (fact py_def pn' q_def ey_def en_def)+
      apply (simp_all add: no sh_def wn_def)
      done
  qed
qed

lemma evaluate_market_fl_of_locals:
  assumes "evaluate_market_locals_fl yes_pct no_pct stake cfg = Inr l"
  shows "evaluate_market_fl question yes_pct no_pct stake cfg =
     Inr \<lparr>xres_question = question,
          xres_p_yes_market = fl_round (x_p_yes l) 4,
          xres_p_no_market = fl_round (x_p_no l) 4,
          xres_q_yes_calibrated = fl_round (x_q_yes l) 4,
          xres_side = x_side l,
          xres_stake = fl_round stake 2,
          xres_chosen_price = map_option (\<lambda>c. fl_round c 4) (x_chosen_price l),
          xres_win_prob_of_chosen = map_option (\<lambda>q. fl_round q 4) (x_chosen_q_win l),
          xres_ev_per_dollar =
            (if x_side l \<noteq> HOLD then fl_round (fl_max (x_ev_per_yes l) (x_ev_per_no l)) 4
             else Fin 0),
          xres_ev_dollars = fl_round (x_ev_dollars l) 2,
          xres_win_payout_if_correct = fl_round (x_win_payout l) 2,
          xres_lose_payout_if_wrong = fl_round (x_lose_payout l) 2\<rparr>"
  by (simp add: evaluate_market_fl_def assms)

subsection \<open>The two models agree on finite inputs\<close>

lemma as_prob_fl_Fin: "as_prob_fl (Fin x) = Fin (as_prob x)"
  by (simp add: as_prob_fl_def as_prob_def)

text \<open>
  On finite inputs the float model computes the finite values of the real-number model,
  branch for branch.
\<close>

lemma evaluate_market_locals_fl_finite:
  "evaluate_market_locals_fl (Fin yes_pct) (map_option Fin no_pct) (Fin stake) (Config_to_fl cfg) =
     map_sum id locals_to_fl (evaluate_market_locals yes_pct no_pct stake cfg)"
proof -
  define py where "py = as_prob yes_pct"
  define pn0 where "pn0 = (case no_pct of None \<Rightarrow> 1 - py | Some n \<Rightarrow> as_prob n)"
  define pn where "pn = (if \<bar>(py + pn0) - 1\<bar> > 1 / 1000000 then 1 - py else pn0)"
  define q where "q = (if py > pn then majority_accuracy cfg
                   else if py < pn then 1 - majority_accuracy cfg
                   else 1 / 2)"
  define ey where "ey = q - py"
  define en where "en = (1 - q) - pn"
  define sh where "sh c = (if c > 0 then stake / c else 0)" for c :: real
  define hold where "hold =
           \<lparr>v_p_yes = py, v_p_no = pn, v_q_yes = q,
                v_ev_per_yes = ey, v_ev_per_no = en,
                v_side = HOLD, v_chosen_price = None, v_chosen_q_win = None,
                v_shares = None, v_gross_win_payout = None, v_fee = None,
                v_ev_dollars = 0, v_win_payout = 0, v_lose_payout = 0\<rparr>"
  define bet where "bet sd c qw =
           \<lparr>v_p_yes = py, v_p_no = pn, v_q_yes = q,
                v_ev_per_yes = ey, v_ev_per_no = en,
                v_side = sd, v_chosen_price = Some c,
                v_chosen_q_win = Some qw,
                v_shares = Some (sh c),
                v_gross_win_payout = Some (sh c * 1),
                v_fee = Some (fee_rate cfg * (sh c * 1 - stake)),
                v_ev_dollars = (qw * (sh c * 1 - fee_rate cfg * (sh c * 1 - stake)))
                                     + ((1 - qw) * 0) - stake,
                v_win_payout = sh c * 1 - fee_rate cfg * (sh c * 1 - stake),
                v_lose_payout = 0\<rparr>" for sd c qw
  have re: "evaluate_market_locals yes_pct no_pct stake cfg =
     (if ey < min_ev cfg \<and> en < min_ev cfg then Inr hold
      else if ey \<ge> en then Inr (bet YES py q) else Inr (bet NO pn (1 - q)))"
    unfolding evaluate_market_locals_def Let_def shares_never_raises sum.case
      hold_def bet_def sh_def ey_def en_def q_def pn_def pn0_def py_def
    by (rule refl)
  have p0: "(case map_option Fin no_pct of None \<Rightarrow> fl_sub (Fin 1) (Fin py)
             | Some n \<Rightarrow> as_prob_fl n) = Fin pn0"
    by (cases no_pct) (simp_all add: pn0_def fl_sub_def as_prob_fl_Fin)
  have p1: "(if fl_lt (Fin (1 / 1000000)) (fl_abs (fl_sub (fl_add (Fin py) (Fin pn0)) (Fin 1)))
             then fl_sub (Fin 1) (Fin py) else Fin pn0) = Fin pn"
    by (simp add: pn_def fl_sub_def)
  have q1: "(if fl_lt (Fin pn) (Fin py) then fl_majority_accuracy (Config_to_fl cfg)
             else if fl_lt (Fin py) (Fin pn)
                  then fl_sub (Fin 1) (fl_majority_accuracy (Config_to_fl cfg))
             else Fin (1 / 2)) = Fin q"
    by (simp add: q_def fl_sub_def Config_to_fl_def)
  have e1: "fl_sub (Fin q) (Fin py) = Fin ey" "fl_sub (fl_sub (Fin 1) (Fin q)) (Fin pn) = Fin en"
    by (simp_all add: ey_def en_def fl_sub_def)
  have c1: "fl_lt (Fin ey) (fl_min_ev (Config_to_fl cfg)) = (ey < min_ev cfg)"
    "fl_lt (Fin en) (fl_min_ev (Config_to_fl cfg)) = (en < min_ev cfg)"
    "fl_le (Fin en) (Fin ey) = (ey \<ge> en)"
    by (simp_all add: Config_to_fl_def)
  have s1: "(if fl_lt (Fin 0) (Fin c) then fl_truediv (Fin stake) (Fin c) else Inr (Fin 0)) =
      Inr (Fin (sh c))" for c
    by (simp add: fl_truediv_def sh_def)
  have b1: "\<lparr>x_p_yes = Fin py, x_p_no = Fin pn, x_q_yes = Fin q,
              x_ev_per_yes = Fin ey, x_ev_per_no = Fin en,
              x_side = sd, x_chosen_price = Some (Fin c),
              x_chosen_q_win = Some qf,
              x_shares = Some (Fin (sh c)),
              x_gross_win_payout = Some (fl_mul (Fin (sh c)) (Fin 1)),
              x_fee = Some (fl_mul (fl_fee_rate (Config_to_fl cfg))
                        (fl_sub (fl_mul (Fin (sh c)) (Fin 1)) (Fin stake))),
              x_ev_dollars =
                fl_sub (fl_add (fl_mul qf
                     (fl_sub (fl_mul (Fin (sh c)) (Fin 1))
                        (fl_mul (fl_fee_rate (Config_to_fl cfg))
                           (fl_sub (fl_mul (Fin (sh c)) (Fin 1)) (Fin stake)))))
                   (fl_mul (fl_sub (Fin 1) qf) (Fin 0))) (Fin stake),
              x_win_payout =
                fl_sub (fl_mul (Fin (sh c)) (Fin 1))
                  (fl_mul (fl_fee_rate (Config_to_fl cfg))
                     (fl_sub (fl_mul (Fin (sh c)) (Fin 1)) (Fin stake))),
              x_lose_payout = Fin 0\<rparr> = locals_to_fl (bet sd c qw)"
    if "qf = Fin qw" for sd c qw qf
    by (simp add: that locals_to_fl_def bet_def fl_sub_def Config_to_fl_def)
  have h1: "\<lparr>x_p_yes = Fin py, x_p_no = Fin pn, x_q_yes = Fin q,
              x_ev_per_yes = Fin ey, x_ev_per_no = Fin en,
              x_side = HOLD, x_chosen_price = None, x_chosen_q_win = None,
              x_shares = None, x_gross_win_payout = None, x_fee = None,
              x_ev_dollars = Fin 0, x_win_payout = Fin 0, x_lose_payout = Fin 0\<rparr> =
            locals_to_fl hold"
    by (simp add: locals_to_fl_def hold_def)
  have qn: "fl_sub (Fin 1) (Fin q) = Fin (1 - q)" by (simp add: fl_sub_def)
  have fe: "evaluate_market_locals_fl (Fin yes_pct) (map_option Fin no_pct) (Fin stake)
        (Config_to_fl cfg) =
     (if ey < min_ev cfg \<and> en < min_ev cfg then Inr (locals_to_fl hold)
      else if ey \<ge> en then Inr (locals_to_fl (bet YES py q))
      else Inr (locals_to_fl (bet NO pn (1 - q))))"
    unfolding evaluate_market_locals_fl_def Let_def as_prob_fl_Fin py_def [symmetric]
      p0 p1 q1 e1 c1 s1 sum.case b1 [OF refl] b1 [OF qn] h1
    by (rule refl)
  show ?thesis unfolding fe re by simp
qed

lemma evaluate_market_fl_finite:
  "evaluate_market_fl question (Fin yes_pct) (map_option Fin no_pct) (Fin stake) (Config_to_fl cfg) =
     map_sum id result_to_fl (evaluate_market question yes_pct no_pct stake cfg)"
proof -
  obtain l where l: "evaluate_market_locals yes_pct no_pct stake cfg = Inr l"
    by (rule evaluate_market_locals_fields)
  have lf: "evaluate_market_locals_fl (Fin yes_pct) (map_option Fin no_pct) (Fin stake)
      (Config_to_fl cfg) = Inr (locals_to_fl l)"
    by (simp add: evaluate_market_locals_fl_finite l)
  show ?thesis
    unfolding evaluate_market_fl_of_locals [OF lf] evaluate_market_of_locals [OF l]
    by (cases "v_chosen_price l"; cases "v_chosen_q_win l")
       (simp_all add: result_to_fl_def locals_to_fl_def fl_round_def fl_max_def max_def)
qed

lemmas fl_defs =
  evaluate_market_fl_def evaluate_market_locals_fl_def Let_def as_prob_fl_def fl_sub_def
  fl_truediv_def fl_max_def fl_eq_def signed_inf_def is_fin_def

lemma is_fin_as_prob_fl: "is_fin x \<Longrightarrow> is_fin (as_prob_fl x)"
  by (cases x) (simp_all add: is_fin_def as_prob_fl_def)

lemma is_fin_fl_sub: "is_fin a \<Longrightarrow> is_fin b \<Longrightarrow> is_fin (fl_sub a b)"
  by (cases a; cases b) (simp_all add: is_fin_def fl_sub_def)

lemma is_fin_not_NaN: "is_fin a \<Longrightarrow> a \<noteq> NaN"
  by (cases a) (simp_all add: is_fin_def)

subsection \<open>The chosen side's EV\<close>

text \<open>
  Claim C10, as amended. When the returned side is not HOLD and neither per-dollar EV
  nor \<open>min_ev\<close> is NaN, the per-dollar EV of the chosen side equals the maximum of the
  two EVs and is at least \<open>min_ev\<close>; the dictionary reports that maximum, rounded to four
  places, under \<^verbatim>\<open>ev_per_$\<close>. The EVs are not NaN whenever \<open>yes_pct\<close>, \<open>no_pct\<close> and the
  accuracy are finite.
\<close>

theorem chosen_side_ev_is_max_unless_nan:
  "\<exists>l r. evaluate_market_locals_fl yes_pct no_pct stake cfg = Inr l \<and>
     evaluate_market_fl question yes_pct no_pct stake cfg = Inr r \<and>
     xres_side r = x_side l \<and>
     (x_side l \<noteq> HOLD \<and> x_ev_per_yes l \<noteq> NaN \<and> x_ev_per_no l \<noteq> NaN
        \<and> fl_min_ev cfg \<noteq> NaN \<longrightarrow>
        (x_side l = YES \<longrightarrow>
           fl_eq (x_ev_per_yes l) (fl_max (x_ev_per_yes l) (x_ev_per_no l)) \<and>
           fl_le (fl_min_ev cfg) (x_ev_per_yes l)) \<and>
        (x_side l = NO \<longrightarrow>
           fl_eq (x_ev_per_no l) (fl_max (x_ev_per_yes l) (x_ev_per_no l)) \<and>
           fl_le (fl_min_ev cfg) (x_ev_per_no l))) \<and>
     (x_side l \<noteq> HOLD \<longrightarrow>
        xres_ev_per_dollar r = fl_round (fl_max (x_ev_per_yes l) (x_ev_per_no l)) 4) \<and>
     (is_fin yes_pct \<and> (\<forall>n. no_pct = Some n \<longrightarrow> is_fin n)
        \<and> is_fin (fl_majority_accuracy cfg) \<longrightarrow>
        x_ev_per_yes l \<noteq> NaN \<and> x_ev_per_no l \<noteq> NaN)"
proof -
  obtain l where l: "evaluate_market_locals_fl yes_pct no_pct stake cfg = Inr l"
    and py: "x_p_yes l = as_prob_fl yes_pct"
    and pn: "x_p_no l =
       (if fl_lt (Fin (1 / 1000000))
             (fl_abs (fl_sub (fl_add (as_prob_fl yes_pct)
                (case no_pct of None \<Rightarrow> fl_sub (Fin 1) (as_prob_fl yes_pct)
                 | Some n \<Rightarrow> as_prob_fl n)) (Fin 1)))
        then fl_sub (Fin 1) (as_prob_fl yes_pct)
        else (case no_pct of None \<Rightarrow> fl_sub (Fin 1) (as_prob_fl yes_pct)
              | Some n \<Rightarrow> as_prob_fl n))"
    and q: "x_q_yes l = (if fl_lt (x_p_no l) (x_p_yes l) then fl_majority_accuracy cfg
                  else if fl_lt (x_p_yes l) (x_p_no l)
                       then fl_sub (Fin 1) (fl_majority_accuracy cfg)
                  else Fin (1 / 2))"
    and ey: "x_ev_per_yes l = fl_sub (x_q_yes l) (x_p_yes l)"
    and en: "x_ev_per_no l = fl_sub (fl_sub (Fin 1) (x_q_yes l)) (x_p_no l)"
    and sd: "x_side l = (if fl_lt (x_ev_per_yes l) (fl_min_ev cfg) \<and> fl_lt (x_ev_per_no l) (fl_min_ev cfg)
                 then HOLD
                 else if fl_le (x_ev_per_no l) (x_ev_per_yes l) then YES else NO)"
    by (rule evaluate_market_locals_fl_fields)
  let ?r = "projr (evaluate_market_fl question yes_pct no_pct stake cfg)"
  have r: "evaluate_market_fl question yes_pct no_pct stake cfg = Inr ?r"
    by (simp add: evaluate_market_fl_of_locals [OF l])
  have s: "xres_side ?r = x_side l"
    by (simp add: evaluate_market_fl_of_locals [OF l])
  have d: "x_side l \<noteq> HOLD \<longrightarrow>
        xres_ev_per_dollar ?r = fl_round (fl_max (x_ev_per_yes l) (x_ev_per_no l)) 4"
    by (simp add: evaluate_market_fl_of_locals [OF l])
  have y: "fl_eq (x_ev_per_yes l) (fl_max (x_ev_per_yes l) (x_ev_per_no l)) \<and>
           fl_le (fl_min_ev cfg) (x_ev_per_yes l)"
    if nn: "x_ev_per_yes l \<noteq> NaN" "x_ev_per_no l \<noteq> NaN" "fl_min_ev cfg \<noteq> NaN"
      and sy: "x_side l = YES"
  proof -
    from sd sy have c: "\<not> (fl_lt (x_ev_per_yes l) (fl_min_ev cfg) \<and> fl_lt (x_ev_per_no l) (fl_min_ev cfg))"
      and g: "fl_le (x_ev_per_no l) (x_ev_per_yes l)"
      by (auto split: if_splits)
    from g nn have "\<not> fl_lt (x_ev_per_yes l) (x_ev_per_no l)"
      by (simp add: fl_not_lt_iff_le)
    with nn have m: "fl_eq (x_ev_per_yes l) (fl_max (x_ev_per_yes l) (x_ev_per_no l))"
      by (simp add: fl_max_def fl_eq_def)
    have "fl_le (fl_min_ev cfg) (x_ev_per_yes l)"
    proof (cases "fl_lt (x_ev_per_yes l) (fl_min_ev cfg)")
      case False
      with nn show ?thesis by (simp add: fl_not_lt_iff_le)
    next
      case True
      with c have "\<not> fl_lt (x_ev_per_no l) (fl_min_ev cfg)" by simp
      with g nn show ?thesis by (rule_tac fl_le_lt_trans_not)
    qed
    with m show ?thesis ..
  qed
  have n: "fl_eq (x_ev_per_no l) (fl_max (x_ev_per_yes l) (x_ev_per_no l)) \<and>
           fl_le (fl_min_ev cfg) (x_ev_per_no l)"
    if nn: "x_ev_per_yes l \<noteq> NaN" "x_ev_per_no l \<noteq> NaN" "fl_min_ev cfg \<noteq> NaN"
      and sn: "x_side l = NO"
  proof -
    from sd sn have c: "\<not> (fl_lt (x_ev_per_yes l) (fl_min_ev cfg) \<and> fl_lt (x_ev_per_no l) (fl_min_ev cfg))"
      and g: "\<not> fl_le (x_ev_per_no l) (x_ev_per_yes l)"
      by (auto split: if_splits)
    from g nn have lt: "fl_lt (x_ev_per_yes l) (x_ev_per_no l)"
      by (simp add: fl_not_lt_iff_le [symmetric])
    with nn have m: "fl_eq (x_ev_per_no l) (fl_max (x_ev_per_yes l) (x_ev_per_no l))"
      by (simp add: fl_max_def fl_eq_def)
    have "fl_le (fl_min_ev cfg) (x_ev_per_no l)"
    proof (cases "fl_lt (x_ev_per_no l) (fl_min_ev cfg)")
      case False
      with nn show ?thesis by (simp add: fl_not_lt_iff_le)
    next
      case True
      with c have a: "\<not> fl_lt (x_ev_per_yes l) (fl_min_ev cfg)" by simp
      from lt nn have "fl_le (x_ev_per_yes l) (x_ev_per_no l)"
        by (cases "x_ev_per_yes l"; cases "x_ev_per_no l") auto
      with a nn show ?thesis by (rule_tac fl_le_lt_trans_not)
    qed
    with m show ?thesis ..
  qed
  have f: "x_ev_per_yes l \<noteq> NaN \<and> x_ev_per_no l \<noteq> NaN"
    if fy: "is_fin yes_pct" and fn: "\<forall>n. no_pct = Some n \<longrightarrow> is_fin n"
      and fa: "is_fin (fl_majority_accuracy cfg)"
  proof -
    have one: "is_fin (Fin 1)" "is_fin (Fin (1 / 2))" by (simp_all add: is_fin_def)
    from fy py have a: "is_fin (x_p_yes l)" by (simp add: is_fin_as_prob_fl)
    from fn have "is_fin (case no_pct of None \<Rightarrow> fl_sub (Fin 1) (as_prob_fl yes_pct)
                           | Some n \<Rightarrow> as_prob_fl n)"
      by (cases no_pct) (simp_all add: is_fin_as_prob_fl is_fin_fl_sub one fy)
    with pn fy have b: "is_fin (x_p_no l)"
      by (simp add: is_fin_as_prob_fl is_fin_fl_sub one)
    from q fa have c: "is_fin (x_q_yes l)"
      by (simp add: is_fin_fl_sub one)
    from ey en a b c have "is_fin (x_ev_per_yes l)" "is_fin (x_ev_per_no l)"
      by (simp_all add: is_fin_fl_sub one)
    then show ?thesis by (simp add: is_fin_not_NaN)
  qed
  from l r s d y n f show ?thesis by blast
qed

text \<open>
  62 percent selects YES with EV 0.28, and 38 percent selects NO with EV 0.28; all
  inputs are finite, so no EV is NaN, and both clear the threshold 0.
\<close>

theorem chosen_side_ev_is_max_unless_nan_witness:
  "(\<exists>l r. evaluate_market_locals_fl (Fin 62) None (Fin 100)
        \<lparr>fl_majority_accuracy = Fin (9 / 10), fl_min_ev = Fin 0, fl_fee_rate = Fin 0\<rparr> = Inr l \<and>
      evaluate_market_fl ''Q'' (Fin 62) None (Fin 100)
        \<lparr>fl_majority_accuracy = Fin (9 / 10), fl_min_ev = Fin 0, fl_fee_rate = Fin 0\<rparr> = Inr r \<and>
      x_side l = YES \<and> x_ev_per_yes l = Fin (28 / 100) \<and> x_ev_per_no l = Fin (- (28 / 100)) \<and>
      fl_eq (x_ev_per_yes l) (fl_max (x_ev_per_yes l) (x_ev_per_no l)) \<and>
      fl_le (Fin 0) (x_ev_per_yes l) \<and> xres_ev_per_dollar r = Fin (28 / 100)) \<and>
   (\<exists>l r. evaluate_market_locals_fl (Fin 38) None (Fin 100)
        \<lparr>fl_majority_accuracy = Fin (9 / 10), fl_min_ev = Fin 0, fl_fee_rate = Fin 0\<rparr> = Inr l \<and>
      evaluate_market_fl ''Q'' (Fin 38) None (Fin 100)
        \<lparr>fl_majority_accuracy = Fin (9 / 10), fl_min_ev = Fin 0, fl_fee_rate = Fin 0\<rparr> = Inr r \<and>
      x_side l = NO \<and> x_ev_per_no l = Fin (28 / 100) \<and> x_ev_per_yes l = Fin (- (28 / 100)) \<and>
      fl_eq (x_ev_per_no l) (fl_max (x_ev_per_yes l) (x_ev_per_no l)) \<and>
      fl_le (Fin 0) (x_ev_per_no l) \<and> xres_ev_per_dollar r = Fin (28 / 100))"
proof (intro conjI)
  let ?cfg = "\<lparr>fl_majority_accuracy = Fin (9 / 10), fl_min_ev = Fin 0, fl_fee_rate = Fin 0\<rparr>"
  have pr: "py_round (7 / 25) 4 = 28 / 100" by (simp add: round_defs)
  obtain l r where l: "evaluate_market_locals_fl (Fin 62) None (Fin 100) ?cfg = Inr l"
    and r: "evaluate_market_fl ''Q'' (Fin 62) None (Fin 100) ?cfg = Inr r"
    and h: "x_side l \<noteq> HOLD \<and> x_ev_per_yes l \<noteq> NaN \<and> x_ev_per_no l \<noteq> NaN
        \<and> fl_min_ev ?cfg \<noteq> NaN \<longrightarrow>
        (x_side l = YES \<longrightarrow>
           fl_eq (x_ev_per_yes l) (fl_max (x_ev_per_yes l) (x_ev_per_no l)) \<and>
           fl_le (fl_min_ev ?cfg) (x_ev_per_yes l)) \<and>
        (x_side l = NO \<longrightarrow>
           fl_eq (x_ev_per_no l) (fl_max (x_ev_per_yes l) (x_ev_per_no l)) \<and>
           fl_le (fl_min_ev ?cfg) (x_ev_per_no l))"
    and d: "x_side l \<noteq> HOLD \<longrightarrow>
        xres_ev_per_dollar r = fl_round (fl_max (x_ev_per_yes l) (x_ev_per_no l)) 4"
    and f: "is_fin (Fin 62) \<and> (\<forall>n. (None :: pyfloat option) = Some n \<longrightarrow> is_fin n)
        \<and> is_fin (fl_majority_accuracy ?cfg) \<longrightarrow>
        x_ev_per_yes l \<noteq> NaN \<and> x_ev_per_no l \<noteq> NaN"
    using chosen_side_ev_is_max_unless_nan [of "Fin 62" None "Fin 100" ?cfg "''Q''"]
    by blast
  from l have v: "x_side l = YES" "x_ev_per_yes l = Fin (7 / 25)" "x_ev_per_no l = Fin (- (7 / 25))"
    by (auto simp: fl_defs)
  from f have nn: "x_ev_per_yes l \<noteq> NaN \<and> x_ev_per_no l \<noteq> NaN"
    by (simp add: is_fin_def)
  from h nn v have c: "fl_eq (x_ev_per_yes l) (fl_max (x_ev_per_yes l) (x_ev_per_no l)) \<and>
           fl_le (fl_min_ev ?cfg) (x_ev_per_yes l)"
    by simp
  from d v have e: "xres_ev_per_dollar r = Fin (28 / 100)"
    by (simp add: fl_max_def fl_round_def pr)
  from l r v c e show "\<exists>l r. evaluate_market_locals_fl (Fin 62) None (Fin 100) ?cfg = Inr l \<and>
      evaluate_market_fl ''Q'' (Fin 62) None (Fin 100) ?cfg = Inr r \<and>
      x_side l = YES \<and> x_ev_per_yes l = Fin (28 / 100) \<and> x_ev_per_no l = Fin (- (28 / 100)) \<and>
      fl_eq (x_ev_per_yes l) (fl_max (x_ev_per_yes l) (x_ev_per_no l)) \<and>
      fl_le (Fin 0) (x_ev_per_yes l) \<and> xres_ev_per_dollar r = Fin (28 / 100)"
    by simp
next
  let ?cfg = "\<lparr>fl_majority_accuracy = Fin (9 / 10), fl_min_ev = Fin 0, fl_fee_rate = Fin 0\<rparr>"
  have pr: "py_round (7 / 25) 4 = 28 / 100" by (simp add: round_defs)
  obtain l r where l: "evaluate_market_locals_fl (Fin 38) None (Fin 100) ?cfg = Inr l"
    and r: "evaluate_market_fl ''Q'' (Fin 38) None (Fin 100) ?cfg = Inr r"
    and h: "x_side l \<noteq> HOLD \<and> x_ev_per_yes l \<noteq> NaN \<and> x_ev_per_no l \<noteq> NaN
        \<and> fl_min_ev ?cfg \<noteq> NaN \<longrightarrow>
        (x_side l = YES \<longrightarrow>
           fl_eq (x_ev_per_yes l) (fl_max (x_ev_per_yes l) (x_ev_per_no l)) \<and>
           fl_le (fl_min_ev ?cfg) (x_ev_per_yes l)) \<and>
        (x_side l = NO \<longrightarrow>
           fl_eq (x_ev_per_no l) (fl_max (x_ev_per_yes l) (x_ev_per_no l)) \<and>
           fl_le (fl_min_ev ?cfg) (x_ev_per_no l))"
    and d: "x_side l \<noteq> HOLD \<longrightarrow>
        xres_ev_per_dollar r = fl_round (fl_max (x_ev_per_yes l) (x_ev_per_no l)) 4"
    and f: "is_fin (Fin 38) \<and> (\<forall>n. (None :: pyfloat option) = Some n \<longrightarrow> is_fin n)
        \<and> is_fin (fl_majority_accuracy ?cfg) \<longrightarrow>
        x_ev_per_yes l \<noteq> NaN \<and> x_ev_per_no l \<noteq> NaN"
    using chosen_side_ev_is_max_unless_nan [of "Fin 38" None "Fin 100" ?cfg "''Q''"]
    by blast
  from l have v: "x_side l = NO" "x_ev_per_no l = Fin (7 / 25)" "x_ev_per_yes l = Fin (- (7 / 25))"
    by (auto simp: fl_defs)
  from f have nn: "x_ev_per_yes l \<noteq> NaN \<and> x_ev_per_no l \<noteq> NaN"
    by (simp add: is_fin_def)
  from h nn v have c: "fl_eq (x_ev_per_no l) (fl_max (x_ev_per_yes l) (x_ev_per_no l)) \<and>
           fl_le (fl_min_ev ?cfg) (x_ev_per_no l)"
    by simp
  from d v have e: "xres_ev_per_dollar r = Fin (28 / 100)"
    by (simp add: fl_max_def fl_round_def pr)
  from l r v c e show "\<exists>l r. evaluate_market_locals_fl (Fin 38) None (Fin 100) ?cfg = Inr l \<and>
      evaluate_market_fl ''Q'' (Fin 38) None (Fin 100) ?cfg = Inr r \<and>
      x_side l = NO \<and> x_ev_per_no l = Fin (28 / 100) \<and> x_ev_per_yes l = Fin (- (28 / 100)) \<and>
      fl_eq (x_ev_per_no l) (fl_max (x_ev_per_yes l) (x_ev_per_no l)) \<and>
      fl_le (Fin 0) (x_ev_per_no l) \<and> xres_ev_per_dollar r = Fin (28 / 100)"
    by simp
qed

text \<open>
  Claim C10 as stated fails at a NaN probability, which \<^verbatim>\<open>_parse_float\<close> accepts and
  \<^verbatim>\<open>evaluate_market\<close> does not reject: every comparison with NaN is false, so the HOLD
  test and the test \<^verbatim>\<open>ev_per_yes >= ev_per_no\<close> both fail and the side is NO, with a
  per-dollar EV of NaN, which is neither at least \<open>min_ev = 0\<close> nor equal to the
  maximum.
\<close>

theorem nan_probability_counterexample:
  "evaluate_market_locals_fl NaN None (Fin 100)
     \<lparr>fl_majority_accuracy = Fin (9 / 10), fl_min_ev = Fin 0, fl_fee_rate = Fin 0\<rparr> =
     Inr \<lparr>x_p_yes = NaN, x_p_no = NaN, x_q_yes = Fin (1 / 2),
          x_ev_per_yes = NaN, x_ev_per_no = NaN, x_side = NO,
          x_chosen_price = Some NaN, x_chosen_q_win = Some (Fin (1 / 2)),
          x_shares = Some (Fin 0), x_gross_win_payout = Some (Fin 0),
          x_fee = Some (Fin 0), x_ev_dollars = Fin (- 100), x_win_payout = Fin 0,
          x_lose_payout = Fin 0\<rparr> \<and>
   xres_side (projr (evaluate_market_fl ''Q'' NaN None (Fin 100)
     \<lparr>fl_majority_accuracy = Fin (9 / 10), fl_min_ev = Fin 0, fl_fee_rate = Fin 0\<rparr>)) = NO \<and>
   xres_ev_per_dollar (projr (evaluate_market_fl ''Q'' NaN None (Fin 100)
     \<lparr>fl_majority_accuracy = Fin (9 / 10), fl_min_ev = Fin 0, fl_fee_rate = Fin 0\<rparr>)) = NaN \<and>
   \<not> fl_le (Fin 0) NaN \<and> \<not> fl_eq NaN (fl_max NaN NaN)"
proof -
  let ?cfg = "\<lparr>fl_majority_accuracy = Fin (9 / 10), fl_min_ev = Fin 0, fl_fee_rate = Fin 0\<rparr>"
  have e: "evaluate_market_locals_fl NaN None (Fin 100) ?cfg =
     Inr \<lparr>x_p_yes = NaN, x_p_no = NaN, x_q_yes = Fin (1 / 2),
          x_ev_per_yes = NaN, x_ev_per_no = NaN, x_side = NO,
          x_chosen_price = Some NaN, x_chosen_q_win = Some (Fin (1 / 2)),
          x_shares = Some (Fin 0), x_gross_win_payout = Some (Fin 0),
          x_fee = Some (Fin 0), x_ev_dollars = Fin (- 100), x_win_payout = Fin 0,
          x_lose_payout = Fin 0\<rparr>"
    by (simp add: fl_defs)
  have s: "xres_side (projr (evaluate_market_fl ''Q'' NaN None (Fin 100) ?cfg)) = NO"
    unfolding evaluate_market_fl_def e by simp
  have d: "xres_ev_per_dollar (projr (evaluate_market_fl ''Q'' NaN None (Fin 100) ?cfg)) = NaN"
    unfolding evaluate_market_fl_def e by (simp add: fl_max_def fl_round_def)
  have n: "\<not> fl_le (Fin 0) NaN" "\<not> fl_eq NaN (fl_max NaN NaN)"
    by (simp_all add: fl_eq_def)
  from e s d n show ?thesis by (intro conjI)
qed

subsection \<open>Payouts for any stake\<close>

text \<open>
  Claim C8, as amended. No stake is rejected: \<^verbatim>\<open>evaluate_market\<close> returns a dictionary
  for every stake. The lose payout is always 0. The win payout is 0 on HOLD, and on
  every decision when the stake is 0 and the fee rate is finite.
\<close>

theorem payouts_for_any_stake:
  "\<exists>l r. evaluate_market_locals_fl yes_pct no_pct stake cfg = Inr l \<and>
     evaluate_market_fl question yes_pct no_pct stake cfg = Inr r \<and>
     x_lose_payout l = Fin 0 \<and> xres_lose_payout_if_wrong r = Fin 0 \<and>
     (x_side l = HOLD \<longrightarrow>
        x_win_payout l = Fin 0 \<and> xres_win_payout_if_correct r = Fin 0) \<and>
     (stake = Fin 0 \<and> is_fin (fl_fee_rate cfg) \<longrightarrow>
        x_win_payout l = Fin 0 \<and> xres_win_payout_if_correct r = Fin 0)"
proof -
  obtain l where l: "evaluate_market_locals_fl yes_pct no_pct stake cfg = Inr l"
    and cp: "x_chosen_price l = (case x_side l of HOLD \<Rightarrow> None | YES \<Rightarrow> Some (x_p_yes l)
                         | NO \<Rightarrow> Some (x_p_no l))"
    and sh: "x_shares l = map_option (\<lambda>c. if fl_lt (Fin 0) c then fl_quot stake c else Fin 0)
                    (x_chosen_price l)"
    and gr: "x_gross_win_payout l = map_option (\<lambda>s. fl_mul s (Fin 1)) (x_shares l)"
    and wp: "x_win_payout l = (case x_gross_win_payout l of None \<Rightarrow> Fin 0
                       | Some g \<Rightarrow> fl_sub g (fl_mul (fl_fee_rate cfg) (fl_sub g stake)))"
    and lp: "x_lose_payout l = Fin 0"
    by (rule evaluate_market_locals_fl_fields)
  let ?r = "projr (evaluate_market_fl question yes_pct no_pct stake cfg)"
  have r: "evaluate_market_fl question yes_pct no_pct stake cfg = Inr ?r"
    by (simp add: evaluate_market_fl_of_locals [OF l])
  have rl: "xres_lose_payout_if_wrong ?r = Fin 0"
    by (simp add: evaluate_market_fl_of_locals [OF l] lp fl_round_zero)
  have rw: "xres_win_payout_if_correct ?r = Fin 0" if "x_win_payout l = Fin 0"
    by (simp add: evaluate_market_fl_of_locals [OF l] that fl_round_zero)
  have wh: "x_win_payout l = Fin 0" if "x_side l = HOLD"
    using that cp sh gr wp by simp
  have q0: "(if fl_lt (Fin 0) c then fl_quot (Fin 0) c else Fin 0) = Fin 0" for c
    by (cases c) simp_all
  have w0: "x_win_payout l = Fin 0" if s0: "stake = Fin 0" and ff: "is_fin (fl_fee_rate cfg)"
  proof -
    from ff obtain f where f: "fl_fee_rate cfg = Fin f"
      by (cases "fl_fee_rate cfg") (simp_all add: is_fin_def)
    from sh have sh0: "x_shares l = map_option (\<lambda>c. Fin 0) (x_chosen_price l)"
      unfolding s0 q0 .
    show ?thesis
      using wp gr sh0 by (cases "x_chosen_price l") (simp_all add: s0 f fl_sub_def)
  qed
  from l r lp rl wh w0 rw show ?thesis by blast
qed

text \<open>
  A stake of 0 at 62 percent with a fee rate of 0.02: side YES and both payouts 0. A
  stake of -100 at 50 against 50 with \<open>min_ev = 0.1\<close>: HOLD and both payouts 0.
\<close>

theorem payouts_for_any_stake_witness:
  "(\<exists>l r. evaluate_market_locals_fl (Fin 62) None (Fin 0)
        \<lparr>fl_majority_accuracy = Fin (9 / 10), fl_min_ev = Fin 0, fl_fee_rate = Fin (2 / 100)\<rparr> = Inr l \<and>
      evaluate_market_fl ''Q'' (Fin 62) None (Fin 0)
        \<lparr>fl_majority_accuracy = Fin (9 / 10), fl_min_ev = Fin 0, fl_fee_rate = Fin (2 / 100)\<rparr> = Inr r \<and>
      x_side l = YES \<and> x_lose_payout l = Fin 0 \<and> xres_lose_payout_if_wrong r = Fin 0 \<and>
      x_win_payout l = Fin 0 \<and> xres_win_payout_if_correct r = Fin 0) \<and>
   (\<exists>l r. evaluate_market_locals_fl (Fin 50) (Some (Fin 50)) (Fin (- 100))
        \<lparr>fl_majority_accuracy = Fin (9 / 10), fl_min_ev = Fin (1 / 10), fl_fee_rate = Fin 0\<rparr> = Inr l \<and>
      evaluate_market_fl ''Q'' (Fin 50) (Some (Fin 50)) (Fin (- 100))
        \<lparr>fl_majority_accuracy = Fin (9 / 10), fl_min_ev = Fin (1 / 10), fl_fee_rate = Fin 0\<rparr> = Inr r \<and>
      x_side l = HOLD \<and> x_lose_payout l = Fin 0 \<and> xres_lose_payout_if_wrong r = Fin 0 \<and>
      x_win_payout l = Fin 0 \<and> xres_win_payout_if_correct r = Fin 0)"
proof (intro conjI)
  let ?cfg = "\<lparr>fl_majority_accuracy = Fin (9 / 10), fl_min_ev = Fin 0, fl_fee_rate = Fin (2 / 100)\<rparr>"
  obtain l r where l: "evaluate_market_locals_fl (Fin 62) None (Fin 0) ?cfg = Inr l"
    and r: "evaluate_market_fl ''Q'' (Fin 62) None (Fin 0) ?cfg = Inr r"
    and z: "x_lose_payout l = Fin 0" "xres_lose_payout_if_wrong r = Fin 0"
    and w: "Fin 0 = Fin 0 \<and> is_fin (fl_fee_rate ?cfg) \<longrightarrow>
        x_win_payout l = Fin 0 \<and> xres_win_payout_if_correct r = Fin 0"
    using payouts_for_any_stake [of "Fin 62" None "Fin 0" ?cfg "''Q''"] by blast
  from l have s: "x_side l = YES"
    by (auto simp: fl_defs)
  have "is_fin (fl_fee_rate ?cfg)" by (simp add: is_fin_def)
  with w have "x_win_payout l = Fin 0 \<and> xres_win_payout_if_correct r = Fin 0" by simp
  with l r z s show "\<exists>l r. evaluate_market_locals_fl (Fin 62) None (Fin 0) ?cfg = Inr l \<and>
      evaluate_market_fl ''Q'' (Fin 62) None (Fin 0) ?cfg = Inr r \<and>
      x_side l = YES \<and> x_lose_payout l = Fin 0 \<and> xres_lose_payout_if_wrong r = Fin 0 \<and>
      x_win_payout l = Fin 0 \<and> xres_win_payout_if_correct r = Fin 0"
    by blast
next
  let ?cfg = "\<lparr>fl_majority_accuracy = Fin (9 / 10), fl_min_ev = Fin (1 / 10), fl_fee_rate = Fin 0\<rparr>"
  obtain l r where l: "evaluate_market_locals_fl (Fin 50) (Some (Fin 50)) (Fin (- 100)) ?cfg = Inr l"
    and r: "evaluate_market_fl ''Q'' (Fin 50) (Some (Fin 50)) (Fin (- 100)) ?cfg = Inr r"
    and z: "x_lose_payout l = Fin 0" "xres_lose_payout_if_wrong r = Fin 0"
    and w: "x_side l = HOLD \<longrightarrow>
        x_win_payout l = Fin 0 \<and> xres_win_payout_if_correct r = Fin 0"
    using payouts_for_any_stake [of "Fin 50" "Some (Fin 50)" "Fin (- 100)" ?cfg "''Q''"] by blast
  from l have s: "x_side l = HOLD"
    by (auto simp: fl_defs)
  with w have "x_win_payout l = Fin 0 \<and> xres_win_payout_if_correct r = Fin 0" by simp
  with l r z s show "\<exists>l r. evaluate_market_locals_fl (Fin 50) (Some (Fin 50)) (Fin (- 100)) ?cfg = Inr l \<and>
      evaluate_market_fl ''Q'' (Fin 50) (Some (Fin 50)) (Fin (- 100)) ?cfg = Inr r \<and>
      x_side l = HOLD \<and> x_lose_payout l = Fin 0 \<and> xres_lose_payout_if_wrong r = Fin 0 \<and>
      x_win_payout l = Fin 0 \<and> xres_win_payout_if_correct r = Fin 0"
    by blast
qed

end
